theory Spec2Isabelle
  imports Main
begin

section \<open>Schema assembly: the data of \<^verbatim>\<open>schema.go\<close>\<close>

text \<open>
  The file \<^verbatim>\<open>schema.go\<close> holds the entry point \<^verbatim>\<open>Make\<close>, its two shorthands and the
  registry method \<^verbatim>\<open>buildSchemaFromAST\<close>. Values of the graphql library (objects,
  types, directives, extensions) are opaque to this file and are represented by their
  names. A Go \<^verbatim>\<open>error\<close> is a message, or one of the two kinds of error that the
  specification names for directive application; \<^verbatim>\<open>nil\<close> is \<open>None\<close>.
\<close>

type_synonym name = string

datatype error =
    Error string
  | UnknownDirectiveError name
  | PrematureDirectiveError name

datatype Object = Object name

datatype Type =
    ObjectType Object
  | ScalarType name
  | EnumType name
  | InterfaceType name
  | UnionType name
  | InputObjectType name

datatype Directive = Directive name

datatype Extension = Extension name

datatype Context = Background | WithValue Context string string

text \<open>\<^verbatim>\<open>graphql.SchemaConfig\<close>: the public struct both paths fill in.\<close>

record SchemaConfig =
  Query :: "Object option"
  Mutation :: "Object option"
  Subscription :: "Object option"
  Types :: "Type list"
  Directives :: "Directive list"
  Extensions :: "Extension list"

text \<open>
  \<^verbatim>\<open>graphql.Schema\<close>: what the library keeps of a configuration. The zero value
  \<^verbatim>\<open>graphql.Schema{}\<close> has every field empty.
\<close>

record Schema =
  queryType :: "Object option"
  mutationType :: "Object option"
  subscriptionType :: "Object option"
  typeMap :: "Type list"
  schemaDirectives :: "Directive list"
  schemaExtensions :: "Extension list"

definition emptySchema :: Schema where
  "emptySchema = \<lparr>queryType = None, mutationType = None, subscriptionType = None,
     typeMap = [], schemaDirectives = [], schemaExtensions = []\<rparr>"

text \<open>
  The nodes of the syntax tree this file reads: an operation type of a schema
  definition (\<^verbatim>\<open>op.Operation\<close> and \<^verbatim>\<open>op.Type.Name.Value\<close>), a directive invocation, a
  schema definition, and the other top-level declarations by kind and name.
\<close>

record OperationTypeDefinition =
  Operation :: string
  TypeNameValue :: name

record DirectiveNode =
  DirectiveName :: name
  Arguments :: "(name \<times> string) list"

record SchemaDefinition =
  NodeDirectives :: "DirectiveNode list"
  OperationTypes :: "OperationTypeDefinition list"

datatype Declaration =
    SchemaDefinitionNode SchemaDefinition
  | TypeDefinitionNode string name
  | DirectiveDefinitionNode name

type_synonym Document = "Declaration list"

text \<open>The operation names of the library's \<^verbatim>\<open>ast\<close> package.\<close>

definition OperationTypeQuery :: string where
  "OperationTypeQuery = ''query''"

definition OperationTypeMutation :: string where
  "OperationTypeMutation = ''mutation''"

definition OperationTypeSubscription :: string where
  "OperationTypeSubscription = ''subscription''"

text \<open>Default root type names.\<close>

definition DefaultRootQueryName :: name where
  "DefaultRootQueryName = ''Query''"

definition DefaultRootMutationName :: name where
  "DefaultRootMutationName = ''Mutation''"

definition DefaultRootSubscriptionName :: name where
  "DefaultRootSubscriptionName = ''Subscription''"

text \<open>
  \<^verbatim>\<open>ExecutableSchema\<close>: \<^verbatim>\<open>TypeDefs\<close> is a string, a list of strings or a function
  returning a list of strings; the resolver and directive-visitor tables are keyed by
  name and hold opaque behaviours.
\<close>

datatype TypeDefsValue =
    TypeDefsString string
  | TypeDefsList "string list"
  | TypeDefsFunc "string list"
  | TypeDefsOther

record ExecutableSchema =
  TypeDefs :: TypeDefsValue
  Resolvers :: "(name \<times> string) list"
  SchemaDirectives :: "(name \<times> string) list"
  ConfigExtensions :: "Extension list"

type_synonym DependencyMap = "(name \<times> name list) list"

text \<open>
  The registry. This file reads and writes the fields \<open>schema\<close>, \<open>dependencyMap\<close> and
  \<open>extensions\<close>; \<open>document\<close> is the merged document the registry was made from; the
  type and directive tables, which only the registry's other methods touch, are
  \<open>internals\<close>.
\<close>

record 'r registry =
  schema :: "Schema option"
  dependencyMap :: DependencyMap
  extensions :: "Extension list"
  document :: Document
  internals :: 'r

record applyDirectiveParams =
  config :: SchemaConfig
  directives :: "DirectiveNode list"
  node :: SchemaDefinition
  allowThunks :: bool

text \<open>
  The functions that \<^verbatim>\<open>schema.go\<close> calls and does not define are parameters: the
  package's own \<^verbatim>\<open>ConcatenateTypeDefs\<close>, \<^verbatim>\<open>newRegistry\<close>, \<^verbatim>\<open>IdentifyDependencies\<close>,
  \<^verbatim>\<open>resolveDefinitions\<close>, \<^verbatim>\<open>getObject\<close>, \<^verbatim>\<open>typeArray\<close>, \<^verbatim>\<open>directiveArray\<close> and
  \<^verbatim>\<open>applyDirectives\<close>, and the libraries' \<^verbatim>\<open>graphql.NewSchema\<close> and
  \<^verbatim>\<open>json.MarshalIndent\<close>. A method that may change the registry's tables returns the
  new tables; \<^verbatim>\<open>applyDirectives\<close> receives a pointer to the configuration and returns
  the configuration as it leaves it. \<^verbatim>\<open>getObject\<close> and \<^verbatim>\<open>NewSchema\<close> return Go pairs,
  because \<^verbatim>\<open>Make\<close> uses their first component whatever the second is.
\<close>

record 'r env =
  ConcatenateTypeDefs :: "ExecutableSchema \<Rightarrow> error + Document"
  newRegistry :: "Context \<Rightarrow> (name \<times> string) list \<Rightarrow> (name \<times> string) list \<Rightarrow>
    Extension list \<Rightarrow> Document \<Rightarrow> error + 'r registry"
  IdentifyDependencies :: "'r registry \<Rightarrow> DependencyMap"
  resolveDefinitions :: "'r registry \<Rightarrow> error option \<times> 'r registry"
  getObject :: "'r \<Rightarrow> name \<Rightarrow> (Object option \<times> error option) \<times> 'r"
  typeArray :: "'r \<Rightarrow> Type list"
  directiveArray :: "'r \<Rightarrow> Directive list"
  applyDirectives :: "applyDirectiveParams \<Rightarrow> 'r \<Rightarrow> error option \<times> SchemaConfig \<times> 'r"
  NewSchema :: "SchemaConfig \<Rightarrow> Schema \<times> error option"
  MarshalIndent :: "DependencyMap \<Rightarrow> string \<times> error option"

section \<open>The operations\<close>

text \<open>\<^verbatim>\<open>fmt.Println(string(j))\<close>: the text and a line feed, appended to standard output.\<close>

definition Println :: "string \<Rightarrow> string \<Rightarrow> string" where
  "Println j out = out @ j @ [CHR 0x0A]"

text \<open>
  \<^verbatim>\<open>Make\<close>, with standard output passed in and returned. The four early returns
  yield the zero schema and the error; a schema stored by \<^verbatim>\<open>resolveDefinitions\<close> is
  returned as it is; otherwise the roots are looked up under the default names, the
  errors of the second and third lookup are dropped, and the result of
  \<^verbatim>\<open>graphql.NewSchema\<close> is returned with a \<^verbatim>\<open>nil\<close> error after the dependency map has been
  printed in case \<^verbatim>\<open>NewSchema\<close> reported an error.
\<close>

definition Make ::
  "'r env \<Rightarrow> ExecutableSchema \<Rightarrow> Context \<Rightarrow> string \<Rightarrow> (Schema \<times> error option) \<times> string"
where
  "Make env c ctx out =
    (case ConcatenateTypeDefs env c of
      Inl err \<Rightarrow> ((emptySchema, Some err), out)
    | Inr doc \<Rightarrow>
    (case newRegistry env ctx (Resolvers c) (SchemaDirectives c) (ConfigExtensions c) doc of
      Inl err \<Rightarrow> ((emptySchema, Some err), out)
    | Inr registry0 \<Rightarrow>
    (case resolveDefinitions env
            (registry0\<lparr>dependencyMap := IdentifyDependencies env registry0\<rparr>) of
      (Some err, _) \<Rightarrow> ((emptySchema, Some err), out)
    | (None, registry1) \<Rightarrow>
    (case schema registry1 of
      Some s \<Rightarrow> ((s, None), out)
    | None \<Rightarrow>
    (case getObject env (internals registry1) DefaultRootQueryName of
      ((_, Some err), _) \<Rightarrow> ((emptySchema, Some err), out)
    | ((query, None), r1) \<Rightarrow>
    (case getObject env r1 DefaultRootMutationName of
      ((mutation, _), r2) \<Rightarrow>
    (case getObject env r2 DefaultRootSubscriptionName of
      ((subscription, _), r3) \<Rightarrow>
    (case NewSchema env
            \<lparr>Query = query, Mutation = mutation, Subscription = subscription,
             Types = typeArray env r3, Directives = directiveArray env r3,
             Extensions = ConfigExtensions c\<rparr> of
      (s, Some err) \<Rightarrow>
        ((s, None), Println (fst (MarshalIndent env (dependencyMap registry1))) out)
    | (s, None) \<Rightarrow> ((s, None), out)))))))))"

definition MakeExecutableSchema ::
  "'r env \<Rightarrow> ExecutableSchema \<Rightarrow> string \<Rightarrow> (Schema \<times> error option) \<times> string"
where
  "MakeExecutableSchema env cfg out = Make env cfg Background out"

definition MakeExecutableSchemaWithContext ::
  "'r env \<Rightarrow> Context \<Rightarrow> ExecutableSchema \<Rightarrow> string \<Rightarrow> (Schema \<times> error option) \<times> string"
where
  "MakeExecutableSchemaWithContext env ctx cfg out = Make env cfg ctx out"

text \<open>
  The loop of \<^verbatim>\<open>buildSchemaFromAST\<close> over the declared operation types. The switch has
  no default case, so an operation of another name is skipped. A failed lookup ends
  the function with its error.
\<close>

fun addOperations ::
  "'r env \<Rightarrow> OperationTypeDefinition list \<Rightarrow> SchemaConfig \<Rightarrow> 'r \<Rightarrow>
   error option \<times> SchemaConfig \<times> 'r"
where
  "addOperations env [] schemaConfig r = (None, schemaConfig, r)"
| "addOperations env (op # ops) schemaConfig r =
    (if Operation op = OperationTypeQuery then
      (case getObject env r (TypeNameValue op) of
        ((object, None), r') \<Rightarrow> addOperations env ops (schemaConfig\<lparr>Query := object\<rparr>) r'
      | ((_, Some err), r') \<Rightarrow> (Some err, schemaConfig, r'))
     else if Operation op = OperationTypeMutation then
      (case getObject env r (TypeNameValue op) of
        ((object, None), r') \<Rightarrow> addOperations env ops (schemaConfig\<lparr>Mutation := object\<rparr>) r'
      | ((_, Some err), r') \<Rightarrow> (Some err, schemaConfig, r'))
     else if Operation op = OperationTypeSubscription then
      (case getObject env r (TypeNameValue op) of
        ((object, None), r') \<Rightarrow>
          addOperations env ops (schemaConfig\<lparr>Subscription := object\<rparr>) r'
      | ((_, Some err), r') \<Rightarrow> (Some err, schemaConfig, r'))
     else addOperations env ops schemaConfig r)"

text \<open>
  \<^verbatim>\<open>buildSchemaFromAST\<close>: the configuration starts from the registry's type array,
  directive array and extensions; then the operations, the directives of the schema
  definition, \<^verbatim>\<open>graphql.NewSchema\<close>; the schema is stored in the last statement.
\<close>

abbreviation initialSchemaConfig :: "'r env \<Rightarrow> 'r registry \<Rightarrow> SchemaConfig" where
  "initialSchemaConfig env c \<equiv>
    \<lparr>Query = None, Mutation = None, Subscription = None,
     Types = typeArray env (internals c),
     Directives = directiveArray env (internals c),
     Extensions = extensions c\<rparr>"

definition buildSchemaFromAST ::
  "'r env \<Rightarrow> SchemaDefinition \<Rightarrow> bool \<Rightarrow> 'r registry \<Rightarrow> error option \<times> 'r registry"
where
  "buildSchemaFromAST env defn thunks c =
    (case addOperations env (OperationTypes defn) (initialSchemaConfig env c) (internals c) of
      (Some err, _, r1) \<Rightarrow> (Some err, c\<lparr>internals := r1\<rparr>)
    | (None, schemaConfig1, r1) \<Rightarrow>
    (case applyDirectives env
            \<lparr>config = schemaConfig1, directives = NodeDirectives defn, node = defn,
             allowThunks = thunks\<rparr> r1 of
      (Some err, _, r2) \<Rightarrow> (Some err, c\<lparr>internals := r2\<rparr>)
    | (None, schemaConfig2, r2) \<Rightarrow>
    (case NewSchema env schemaConfig2 of
      (_, Some err) \<Rightarrow> (Some err, c\<lparr>internals := r2\<rparr>)
    | (s, None) \<Rightarrow> (None, c\<lparr>schema := Some s, internals := r2\<rparr>))))"

section \<open>The callers and callees outside \<^verbatim>\<open>schema.go\<close>, after the specification\<close>

text \<open>
  Modelled from the spec: \<^verbatim>\<open>resolveDefinitions\<close> is missing from the sources; this is
  its first half. Section 4.5, step 3: every declaration of the document is resolved
  against the registry, in document order, and the first failure ends the pass. The
  resolution of one declaration (section 4.3) is the parameter \<open>resolve\<close>.
\<close>

fun resolveDeclarations ::
  "(Declaration \<Rightarrow> 'r \<Rightarrow> error option \<times> 'r) \<Rightarrow> Declaration list \<Rightarrow> 'r \<Rightarrow> error option \<times> 'r"
where
  "resolveDeclarations resolve [] r = (None, r)"
| "resolveDeclarations resolve (d # ds) r =
    (case resolve d r of
      (Some err, r') \<Rightarrow> (Some err, r')
    | (None, r') \<Rightarrow> resolveDeclarations resolve ds r')"

text \<open>
  Modelled from the spec: the schema definition that section 4.5, step 4 speaks of
  (``if the document contains an explicit schema definition node''), the first one in
  document order. The sources do not show how \<^verbatim>\<open>resolveDefinitions\<close> finds it.
\<close>

fun schemaDefinitionOf :: "Document \<Rightarrow> SchemaDefinition option" where
  "schemaDefinitionOf [] = None"
| "schemaDefinitionOf (SchemaDefinitionNode d # ds) = Some d"
| "schemaDefinitionOf (_ # ds) = schemaDefinitionOf ds"

text \<open>
  Modelled from the spec: \<^verbatim>\<open>resolveDefinitions\<close>, missing from the sources. Section 4.5,
  steps 3 and 4: the declarations are resolved; then, if the document contains a schema
  definition, the schema is built from it by \<^verbatim>\<open>buildSchemaFromAST\<close> with thunks
  disallowed.
\<close>

definition specResolveDefinitions ::
  "(Declaration \<Rightarrow> 'r \<Rightarrow> error option \<times> 'r) \<Rightarrow> 'r env \<Rightarrow> 'r registry \<Rightarrow>
   error option \<times> 'r registry"
where
  "specResolveDefinitions resolve env c =
    (case resolveDeclarations resolve (document c) (internals c) of
      (Some err, r) \<Rightarrow> (Some err, c\<lparr>internals := r\<rparr>)
    | (None, r) \<Rightarrow>
    (case schemaDefinitionOf (document c) of
      None \<Rightarrow> (None, c\<lparr>internals := r\<rparr>)
    | Some d \<Rightarrow> buildSchemaFromAST env d False (c\<lparr>internals := r\<rparr>)))"

text \<open>The environment whose \<^verbatim>\<open>resolveDefinitions\<close> is the one of the specification.\<close>

definition withSpecResolve ::
  "(Declaration \<Rightarrow> 'r \<Rightarrow> error option \<times> 'r) \<Rightarrow> 'r env \<Rightarrow> 'r env"
where
  "withSpecResolve resolve env =
    env\<lparr>resolveDefinitions := specResolveDefinitions resolve env\<rparr>"

text \<open>
  Modelled from the spec: the registered behaviour of a directive, which is missing
  from the sources. Section 4.4: it is invoked with the construction target and the
  argument values of the invocation; it changes the target, requires a thunk, or fails.
\<close>

datatype BehaviorResult = Applied SchemaConfig | RequiresThunk | Failed error

type_synonym Behavior = "SchemaConfig \<Rightarrow> (name \<times> string) list \<Rightarrow> BehaviorResult"

text \<open>
  Modelled from the spec: \<^verbatim>\<open>applyDirectives\<close>, missing from the sources. Section 4.4:
  the invocations are taken in the order written; the behaviour registered under the
  directive's name is looked up, and its absence is an \<open>UnknownDirectiveError\<close>; the
  behaviour is invoked with the construction target and the argument values; a
  behaviour that requires a thunk is deferred where thunks are allowed, which leaves
  the target to the thunk, and is a \<open>PrematureDirectiveError\<close> where they are not.
\<close>

fun specApplyDirectives ::
  "(name \<times> Behavior) list \<Rightarrow> bool \<Rightarrow> DirectiveNode list \<Rightarrow> SchemaConfig \<Rightarrow>
   error option \<times> SchemaConfig"
where
  "specApplyDirectives table thunks [] target = (None, target)"
| "specApplyDirectives table thunks (d # ds) target =
    (case map_of table (DirectiveName d) of
      None \<Rightarrow> (Some (UnknownDirectiveError (DirectiveName d)), target)
    | Some behavior \<Rightarrow>
      (case behavior target (Arguments d) of
        Applied target' \<Rightarrow> specApplyDirectives table thunks ds target'
      | RequiresThunk \<Rightarrow>
          if thunks then specApplyDirectives table thunks ds target
          else (Some (PrematureDirectiveError (DirectiveName d)), target)
      | Failed err \<Rightarrow> (Some err, target)))"

text \<open>
  Modelled from the spec: \<^verbatim>\<open>applyDirectives\<close> as the registry method that
  \<^verbatim>\<open>buildSchemaFromAST\<close> calls, taking the target, the invocations and the flag from its
  parameter struct; it leaves the registry's tables alone.
\<close>

definition specApplyDirectivesMethod ::
  "(name \<times> Behavior) list \<Rightarrow> applyDirectiveParams \<Rightarrow> 'r \<Rightarrow>
   error option \<times> SchemaConfig \<times> 'r"
where
  "specApplyDirectivesMethod table p r =
    (case specApplyDirectives table (allowThunks p) (directives p) (config p) of
      (err, target) \<Rightarrow> (err, target, r))"

section \<open>An example environment\<close>

text \<open>
  Concrete collaborators on which the theorems below are instantiated. The stand-in
  for \<^verbatim>\<open>ConcatenateTypeDefs\<close> does not parse: it yields the document the environment
  was made for, whatever the text of the type definitions. The registry's tables are
  a list of named types and a list of directives. The lookup of an object
  fails for a name without a type and for a type that is not an object. The stand-in
  for \<^verbatim>\<open>graphql.NewSchema\<close> rejects a configuration without a query root and one whose
  type array names a type twice; in the second case it returns the schema it has
  filled in so far together with the error, as the library does. \<open>exBase\<close> resolves
  nothing; \<open>exEnv\<close> resolves the definitions as the specification describes.
\<close>

record tables =
  typeTable :: "(name \<times> Type) list"
  directiveTable :: "Directive list"

fun typeName :: "Type \<Rightarrow> name" where
  "typeName (ObjectType (Object n)) = n"
| "typeName (ScalarType n) = n"
| "typeName (EnumType n) = n"
| "typeName (InterfaceType n) = n"
| "typeName (UnionType n) = n"
| "typeName (InputObjectType n) = n"

definition exGetObject :: "tables \<Rightarrow> name \<Rightarrow> (Object option \<times> error option) \<times> tables" where
  "exGetObject r n =
    (case map_of (typeTable r) n of
      None \<Rightarrow> ((None, Some (Error (''no definition found for type '' @ n))), r)
    | Some (ObjectType ob) \<Rightarrow> ((Some ob, None), r)
    | Some _ \<Rightarrow> ((None, Some (Error (n @ '' is not an object''))), r))"

definition exNewSchema :: "SchemaConfig \<Rightarrow> Schema \<times> error option" where
  "exNewSchema cfg =
    (if Query cfg = None
     then (emptySchema, Some (Error ''Schema query must be Object Type but got: nil.''))
     else if distinct (map typeName (Types cfg))
     then (\<lparr>queryType = Query cfg, mutationType = Mutation cfg,
            subscriptionType = Subscription cfg, typeMap = Types cfg,
            schemaDirectives = Directives cfg, schemaExtensions = Extensions cfg\<rparr>, None)
     else (\<lparr>queryType = Query cfg, mutationType = Mutation cfg,
            subscriptionType = Subscription cfg, typeMap = [],
            schemaDirectives = [], schemaExtensions = []\<rparr>,
           Some (Error ''Schema must contain unique named types'')))"

fun exDependencies :: "Document \<Rightarrow> DependencyMap" where
  "exDependencies [] = []"
| "exDependencies (TypeDefinitionNode k n # ds) = (n, []) # exDependencies ds"
| "exDependencies (_ # ds) = exDependencies ds"

definition exMarshalIndent :: "DependencyMap \<Rightarrow> string \<times> error option" where
  "exMarshalIndent m = (concat (map fst m), None)"

definition exResolve :: "Declaration \<Rightarrow> tables \<Rightarrow> error option \<times> tables" where
  "exResolve d r =
    (case d of
      TypeDefinitionNode k n \<Rightarrow>
        (if map_of (typeTable r) n = None
         then (Some (Error (''no definition found for type '' @ n)), r) else (None, r))
    | _ \<Rightarrow> (None, r))"

definition exTable :: "(name \<times> Behavior) list" where
  "exTable =
    [(''tag'', \<lambda>target args. Applied (target\<lparr>Extensions := Extension ''tag'' # Extensions target\<rparr>)),
     (''lazy'', \<lambda>target args. RequiresThunk)]"

definition exBase :: "Document \<Rightarrow> tables \<Rightarrow> tables env" where
  "exBase doc tabs =
    \<lparr>ConcatenateTypeDefs =
       (\<lambda>c. case TypeDefs c of
          TypeDefsOther \<Rightarrow> Inl (Error ''unsupported TypeDefs type'')
        | _ \<Rightarrow> Inr doc),
     newRegistry =
       (\<lambda>ctx rs ds xs d. Inr \<lparr>schema = None, dependencyMap = [], extensions = xs,
          document = d, internals = tabs\<rparr>),
     IdentifyDependencies = (\<lambda>c. exDependencies (document c)),
     resolveDefinitions = (\<lambda>c. (None, c)),
     getObject = exGetObject,
     typeArray = (\<lambda>r. map snd (typeTable r)),
     directiveArray = directiveTable,
     applyDirectives = specApplyDirectivesMethod exTable,
     NewSchema = exNewSchema,
     MarshalIndent = exMarshalIndent\<rparr>"

definition exEnv :: "Document \<Rightarrow> tables \<Rightarrow> tables env" where
  "exEnv doc tabs = withSpecResolve exResolve (exBase doc tabs)"

definition exConfig :: ExecutableSchema where
  "exConfig = \<lparr>TypeDefs = TypeDefsString ''type Query { hello: String }'',
     Resolvers = [], SchemaDirectives = [], ConfigExtensions = []\<rparr>"

text \<open>
  Documents, registry tables and schema definitions for the instances: a document
  with the type \<open>Query\<close> alone; one without it; tables on which the stand-in for
  \<^verbatim>\<open>graphql.NewSchema\<close> fails; a document with \<^verbatim>\<open>schema { query: Foo }\<close> beside a type
  \<open>Query\<close>; and schema definitions with three roots, with a root that has no type, and
  with a directive that requires a thunk.
\<close>

definition exRegistry :: "Document \<Rightarrow> tables \<Rightarrow> tables registry" where
  "exRegistry doc tabs =
    \<lparr>schema = None, dependencyMap = exDependencies doc, extensions = [], document = doc,
     internals = tabs\<rparr>"

definition exDocQuery :: Document where
  "exDocQuery = [TypeDefinitionNode ''object'' ''Query'']"

definition exTablesQuery :: tables where
  "exTablesQuery =
    \<lparr>typeTable = [(''Query'', ObjectType (Object ''Query''))], directiveTable = []\<rparr>"

definition exDocFoo :: Document where
  "exDocFoo = [TypeDefinitionNode ''object'' ''Foo'']"

definition exTablesFoo :: tables where
  "exTablesFoo =
    \<lparr>typeTable = [(''Foo'', ObjectType (Object ''Foo''))], directiveTable = []\<rparr>"

definition exTablesClash :: tables where
  "exTablesClash =
    \<lparr>typeTable = [(''Query'', ObjectType (Object ''Query'')),
                  (''Foo'', ObjectType (Object ''Foo'')),
                  (''Node'', InterfaceType ''Node''),
                  (''Node2'', ObjectType (Object ''Node''))],
     directiveTable = []\<rparr>"

definition exTablesRoots :: tables where
  "exTablesRoots =
    \<lparr>typeTable = [(''Query'', ObjectType (Object ''Query'')),
                  (''Foo'', ObjectType (Object ''Foo'')),
                  (''Change'', ObjectType (Object ''Change'')),
                  (''Feed'', ObjectType (Object ''Feed''))],
     directiveTable = [Directive ''tag'']\<rparr>"

definition exOpQuery :: OperationTypeDefinition where
  "exOpQuery = \<lparr>Operation = ''query'', TypeNameValue = ''Foo''\<rparr>"

definition exOpMutation :: OperationTypeDefinition where
  "exOpMutation = \<lparr>Operation = ''mutation'', TypeNameValue = ''Change''\<rparr>"

definition exOpSubscription :: OperationTypeDefinition where
  "exOpSubscription = \<lparr>Operation = ''subscription'', TypeNameValue = ''Feed''\<rparr>"

definition exOpMissing :: OperationTypeDefinition where
  "exOpMissing = \<lparr>Operation = ''mutation'', TypeNameValue = ''Missing''\<rparr>"

definition exDefFoo :: SchemaDefinition where
  "exDefFoo =
    \<lparr>NodeDirectives = [\<lparr>DirectiveName = ''tag'', Arguments = []\<rparr>],
     OperationTypes = [exOpQuery]\<rparr>"

definition exDefRoots :: SchemaDefinition where
  "exDefRoots =
    \<lparr>NodeDirectives = [], OperationTypes = [exOpQuery, exOpMutation, exOpSubscription]\<rparr>"

definition exDefMissing :: SchemaDefinition where
  "exDefMissing =
    \<lparr>NodeDirectives = [], OperationTypes = [exOpQuery, exOpMissing, exOpSubscription]\<rparr>"

definition exDefLazy :: SchemaDefinition where
  "exDefLazy =
    \<lparr>NodeDirectives = [\<lparr>DirectiveName = ''tag'', Arguments = []\<rparr>,
                       \<lparr>DirectiveName = ''lazy'', Arguments = []\<rparr>],
     OperationTypes = [exOpQuery]\<rparr>"

definition exDocSchema :: "SchemaDefinition \<Rightarrow> Document" where
  "exDocSchema d =
    [TypeDefinitionNode ''object'' ''Query'', TypeDefinitionNode ''object'' ''Foo'',
     SchemaDefinitionNode d]"

text \<open>
  Further collaborators for the instances. A lookup that returns neither an object
  nor an error for a type that is not an object. A lookup that constructs an object
  type on the first request for its name and adds it to the registry's tables, as
  section 4.3 of the specification describes. Directive behaviours that rewrite the
  target they are given: \<open>reroot\<close> makes the object \<open>Query\<close> the query root, \<open>strip\<close> empties
  the type array.
\<close>

definition exGetObjectNil :: "tables \<Rightarrow> name \<Rightarrow> (Object option \<times> error option) \<times> tables" where
  "exGetObjectNil r n =
    (case map_of (typeTable r) n of
      None \<Rightarrow> ((None, Some (Error (''no definition found for type '' @ n))), r)
    | Some (ObjectType ob) \<Rightarrow> ((Some ob, None), r)
    | Some _ \<Rightarrow> ((None, None), r))"

definition exGetObjectLazy :: "tables \<Rightarrow> name \<Rightarrow> (Object option \<times> error option) \<times> tables" where
  "exGetObjectLazy r n =
    (case map_of (typeTable r) n of
      None \<Rightarrow>
        ((Some (Object n), None),
         r\<lparr>typeTable := typeTable r @ [(n, ObjectType (Object n))]\<rparr>)
    | Some (ObjectType ob) \<Rightarrow> ((Some ob, None), r)
    | Some _ \<Rightarrow> ((None, Some (Error (n @ '' is not an object''))), r))"

definition exTableRewriting :: "(name \<times> Behavior) list" where
  "exTableRewriting =
    [(''reroot'', \<lambda>target args. Applied (target\<lparr>Query := Some (Object ''Query'')\<rparr>)),
     (''strip'', \<lambda>target args. Applied (target\<lparr>Types := []\<rparr>))]"

definition exDefReroot :: SchemaDefinition where
  "exDefReroot =
    \<lparr>NodeDirectives = [\<lparr>DirectiveName = ''reroot'', Arguments = []\<rparr>],
     OperationTypes = [exOpQuery]\<rparr>"

definition exDefStrip :: SchemaDefinition where
  "exDefStrip =
    \<lparr>NodeDirectives = [\<lparr>DirectiveName = ''strip'', Arguments = []\<rparr>],
     OperationTypes = [exOpQuery]\<rparr>"

definition exDefPlain :: SchemaDefinition where
  "exDefPlain = \<lparr>NodeDirectives = [], OperationTypes = [exOpQuery]\<rparr>"

definition exDocScalarQuery :: Document where
  "exDocScalarQuery = [TypeDefinitionNode ''scalar'' ''Query'']"

definition exTablesScalarQuery :: tables where
  "exTablesScalarQuery =
    \<lparr>typeTable = [(''Query'', ScalarType ''Query'')], directiveTable = []\<rparr>"

definition exTablesSubscription :: tables where
  "exTablesSubscription =
    \<lparr>typeTable = [(''Query'', ObjectType (Object ''Query'')),
                  (''Subscription'', ObjectType (Object ''Subscription''))],
     directiveTable = []\<rparr>"

definition exTablesMutation :: tables where
  "exTablesMutation =
    \<lparr>typeTable = [(''Query'', ObjectType (Object ''Query'')),
                  (''Mutation'', ObjectType (Object ''Mutation''))],
     directiveTable = []\<rparr>"

lemmas ex_more = exGetObjectNil_def exGetObjectLazy_def exTableRewriting_def exDefReroot_def
  exDefStrip_def exDefPlain_def exDocScalarQuery_def exTablesScalarQuery_def
  exTablesSubscription_def exTablesMutation_def

lemmas ex_defs = exEnv_def exBase_def withSpecResolve_def specResolveDefinitions_def
  exConfig_def exGetObject_def exNewSchema_def exResolve_def exMarshalIndent_def
  DefaultRootQueryName_def DefaultRootMutationName_def DefaultRootSubscriptionName_def
  OperationTypeQuery_def OperationTypeMutation_def OperationTypeSubscription_def
  buildSchemaFromAST_def specApplyDirectivesMethod_def exTable_def Println_def
  emptySchema_def exRegistry_def

lemmas ex_data = exDocQuery_def exTablesQuery_def exDocFoo_def exTablesFoo_def
  exTablesClash_def exTablesRoots_def exOpQuery_def exOpMutation_def exOpSubscription_def
  exOpMissing_def exDefFoo_def exDefRoots_def exDefMissing_def exDefLazy_def exDocSchema_def

section \<open>The paths through \<^verbatim>\<open>Make\<close>\<close>

text \<open>
  One lemma for each way out of \<^verbatim>\<open>Make\<close> after the registry exists: the definitions
  failed to resolve, a schema was stored, the lookup of \<open>Query\<close> failed, and the
  inferred configuration reached \<^verbatim>\<open>graphql.NewSchema\<close>.
\<close>

lemma Make_resolve_fails:
  assumes "ConcatenateTypeDefs env c = Inr doc"
    and "newRegistry env ctx (Resolvers c) (SchemaDirectives c) (ConfigExtensions c) doc
          = Inr reg0"
    and "resolveDefinitions env (reg0\<lparr>dependencyMap := IdentifyDependencies env reg0\<rparr>)
          = (Some e, reg1)"
  shows "Make env c ctx out = ((emptySchema, Some e), out)"
  using assms by (simp add: Make_def)

lemma Make_explicit:
  assumes "ConcatenateTypeDefs env c = Inr doc"
    and "newRegistry env ctx (Resolvers c) (SchemaDirectives c) (ConfigExtensions c) doc
          = Inr reg0"
    and "resolveDefinitions env (reg0\<lparr>dependencyMap := IdentifyDependencies env reg0\<rparr>)
          = (None, reg1)"
    and "schema reg1 = Some s"
  shows "Make env c ctx out = ((s, None), out)"
  using assms by (simp add: Make_def)


lemma Make_inferred:
  assumes "ConcatenateTypeDefs env c = Inr doc"
    and "newRegistry env ctx (Resolvers c) (SchemaDirectives c) (ConfigExtensions c) doc
          = Inr reg0"
    and "resolveDefinitions env (reg0\<lparr>dependencyMap := IdentifyDependencies env reg0\<rparr>)
          = (None, reg1)"
    and "schema reg1 = None"
    and "getObject env (internals reg1) DefaultRootQueryName = ((q, None), r1)"
    and "getObject env r1 DefaultRootMutationName = ((m, em), r2)"
    and "getObject env r2 DefaultRootSubscriptionName = ((s, es), r3)"
  shows "Make env c ctx out =
    (case NewSchema env
            \<lparr>Query = q, Mutation = m, Subscription = s,
             Types = typeArray env r3, Directives = directiveArray env r3,
             Extensions = ConfigExtensions c\<rparr> of
      (sch, Some err) \<Rightarrow>
        ((sch, None), Println (fst (MarshalIndent env (dependencyMap reg1))) out)
    | (sch, None) \<Rightarrow> ((sch, None), out))"
  using assms by (simp add: Make_def)

text \<open>The first steps of \<^verbatim>\<open>Make\<close> in the example environment.\<close>

lemma ex_ConcatenateTypeDefs:
  "ConcatenateTypeDefs (exEnv doc tabs) exConfig = Inr doc"
  by (simp add: ex_defs)

lemma ex_newRegistry:
  "newRegistry (exEnv doc tabs) ctx (Resolvers exConfig) (SchemaDirectives exConfig)
     (ConfigExtensions exConfig) doc = Inr ((exRegistry doc tabs)\<lparr>dependencyMap := []\<rparr>)"
  by (simp add: ex_defs)

lemma ex_IdentifyDependencies:
  "((exRegistry doc tabs)\<lparr>dependencyMap := []\<rparr>)\<lparr>dependencyMap :=
      IdentifyDependencies (exEnv doc tabs) ((exRegistry doc tabs)\<lparr>dependencyMap := []\<rparr>)\<rparr>
   = exRegistry doc tabs"
  by (simp add: ex_defs)


lemma ex_resolve_inferred:
  assumes "schemaDefinitionOf doc = None"
    and "resolveDeclarations exResolve doc tabs = (None, tabs)"
  shows "resolveDefinitions (exEnv doc tabs)
      (((exRegistry doc tabs)\<lparr>dependencyMap := []\<rparr>)\<lparr>dependencyMap :=
        IdentifyDependencies (exEnv doc tabs) ((exRegistry doc tabs)\<lparr>dependencyMap := []\<rparr>)\<rparr>)
    = (None, exRegistry doc tabs)"
  unfolding ex_IdentifyDependencies using assms
  by (simp add: exEnv_def withSpecResolve_def specResolveDefinitions_def exRegistry_def)
section \<open>The inferred roots\<close>

text \<open>
  C1 says that \<^verbatim>\<open>Make\<close> returns the error of every step that fails, and in particular
  the error of \<^verbatim>\<open>graphql.NewSchema\<close> on the inferred roots. The code tests that error,
  prints the dependency map, and then returns \<^verbatim>\<open>schema, nil\<close>: whenever the inferred
  configuration is rejected with an error, \<^verbatim>\<open>Make\<close> returns the schema value that came
  with the error, and no error.
\<close>

theorem Make_drops_NewSchema_error:
  assumes "ConcatenateTypeDefs env c = Inr doc"
    and "newRegistry env ctx (Resolvers c) (SchemaDirectives c) (ConfigExtensions c) doc
          = Inr reg0"
    and "resolveDefinitions env (reg0\<lparr>dependencyMap := IdentifyDependencies env reg0\<rparr>)
          = (None, reg1)"
    and "schema reg1 = None"
    and "getObject env (internals reg1) DefaultRootQueryName = ((q, None), r1)"
    and "getObject env r1 DefaultRootMutationName = ((m, em), r2)"
    and "getObject env r2 DefaultRootSubscriptionName = ((s, es), r3)"
    and "NewSchema env
            \<lparr>Query = q, Mutation = m, Subscription = s,
             Types = typeArray env r3, Directives = directiveArray env r3,
             Extensions = ConfigExtensions c\<rparr> = (sch, Some err)"
  shows "fst (Make env c ctx out) = (sch, None)"
  using assms by (simp add: Make_inferred)

theorem Make_drops_NewSchema_error_witness:
  "snd (NewSchema (exEnv exDocQuery exTablesClash)
      \<lparr>Query = Some (Object ''Query''), Mutation = None, Subscription = None,
       Types = typeArray (exEnv exDocQuery exTablesClash) exTablesClash,
       Directives = directiveArray (exEnv exDocQuery exTablesClash) exTablesClash,
       Extensions = ConfigExtensions exConfig\<rparr>)
     = Some (Error ''Schema must contain unique named types'')
   \<and> fst (Make (exEnv exDocQuery exTablesClash) exConfig Background []) =
     (\<lparr>queryType = Some (Object ''Query''), mutationType = None, subscriptionType = None,
       typeMap = [], schemaDirectives = [], schemaExtensions = []\<rparr>, None)"
proof -
  let ?env = "exEnv exDocQuery exTablesClash"
  let ?reg = "exRegistry exDocQuery exTablesClash"
  have h3: "resolveDefinitions ?env ((?reg\<lparr>dependencyMap := []\<rparr>)\<lparr>dependencyMap :=
      IdentifyDependencies ?env (?reg\<lparr>dependencyMap := []\<rparr>)\<rparr>) = (None, ?reg)"
    unfolding ex_IdentifyDependencies by (simp add: ex_defs ex_data)
  have h4: "schema ?reg = None"
    by (simp add: ex_defs)
  have h5: "getObject ?env (internals ?reg) DefaultRootQueryName =
      ((Some (Object ''Query''), None), exTablesClash)"
    by (simp add: ex_defs ex_data)
  have h6: "getObject ?env exTablesClash DefaultRootMutationName =
      ((None, Some (Error ''no definition found for type Mutation'')), exTablesClash)"
    by (simp add: ex_defs ex_data)
  have h7: "getObject ?env exTablesClash DefaultRootSubscriptionName =
      ((None, Some (Error ''no definition found for type Subscription'')), exTablesClash)"
    by (simp add: ex_defs ex_data)
  have h8: "NewSchema ?env
      \<lparr>Query = Some (Object ''Query''), Mutation = None, Subscription = None,
       Types = typeArray ?env exTablesClash, Directives = directiveArray ?env exTablesClash,
       Extensions = ConfigExtensions exConfig\<rparr> =
      (\<lparr>queryType = Some (Object ''Query''), mutationType = None, subscriptionType = None,
        typeMap = [], schemaDirectives = [], schemaExtensions = []\<rparr>,
       Some (Error ''Schema must contain unique named types''))"
    by (simp add: ex_defs ex_data)
  show ?thesis
    using Make_drops_NewSchema_error
      [where ctx = Background and out = "[]",
       OF ex_ConcatenateTypeDefs ex_newRegistry h3 h4 h5 h6 h7 h8] h8
    by simp
qed




section \<open>The schema definition\<close>

text \<open>
  The loop over the operation types: it distributes over concatenation, it leaves the
  type array, the directive array and the extensions alone, and it leaves a root alone
  when no operation of that name is declared.
\<close>

lemma addOperations_append:
  "addOperations env (xs @ ys) cfg r =
    (case addOperations env xs cfg r of
      (Some e, cfg', r') \<Rightarrow> (Some e, cfg', r')
    | (None, cfg', r') \<Rightarrow> addOperations env ys cfg' r')"
  by (induction xs arbitrary: cfg r) (auto split: prod.splits option.splits)

lemma addOperations_keeps_arrays:
  "addOperations env ops cfg r = (res, cfg', r') \<Longrightarrow>
    Types cfg' = Types cfg \<and> Directives cfg' = Directives cfg \<and> Extensions cfg' = Extensions cfg"
proof (induction ops arbitrary: cfg r)
  case Nil
  then show ?case by simp
next
  case (Cons op ops)
  then show ?case
    by (fastforce split: if_splits prod.splits option.splits)
qed

lemma addOperations_keeps_Query:
  "\<forall>p\<in>set ops. Operation p \<noteq> OperationTypeQuery \<Longrightarrow>
   addOperations env ops cfg r = (res, cfg', r') \<Longrightarrow> Query cfg' = Query cfg"
proof (induction ops arbitrary: cfg r)
  case Nil
  then show ?case by simp
next
  case (Cons op ops)
  then show ?case
    by (fastforce split: if_splits prod.splits option.splits)
qed

lemma addOperations_keeps_Mutation:
  "\<forall>p\<in>set ops. Operation p \<noteq> OperationTypeMutation \<Longrightarrow>
   addOperations env ops cfg r = (res, cfg', r') \<Longrightarrow> Mutation cfg' = Mutation cfg"
proof (induction ops arbitrary: cfg r)
  case Nil
  then show ?case by simp
next
  case (Cons op ops)
  then show ?case
    by (fastforce split: if_splits prod.splits option.splits)
qed

lemma addOperations_keeps_Subscription:
  "\<forall>p\<in>set ops. Operation p \<noteq> OperationTypeSubscription \<Longrightarrow>
   addOperations env ops cfg r = (res, cfg', r') \<Longrightarrow> Subscription cfg' = Subscription cfg"
proof (induction ops arbitrary: cfg r)
  case Nil
  then show ?case by simp
next
  case (Cons op ops)
  then show ?case
    by (fastforce split: if_splits prod.splits option.splits)
qed

lemma operation_names_distinct:
  "OperationTypeQuery \<noteq> OperationTypeMutation"
  "OperationTypeQuery \<noteq> OperationTypeSubscription"
  "OperationTypeMutation \<noteq> OperationTypeSubscription"
  by (simp_all add: OperationTypeQuery_def OperationTypeMutation_def
      OperationTypeSubscription_def)

text \<open>A failed lookup of a declared root ends the loop with its error.\<close>

lemma addOperations_lookup_fails:
  assumes "Operation op \<in> {OperationTypeQuery, OperationTypeMutation, OperationTypeSubscription}"
    and "getObject env r (TypeNameValue op) = ((ob, Some e), r')"
  shows "addOperations env (op # post) cfg r = (Some e, cfg, r')"
  using assms by auto

lemma addOperations_first_failure:
  assumes "addOperations env pre cfg r = (None, cfgA, rA)"
    and "Operation op \<in> {OperationTypeQuery, OperationTypeMutation, OperationTypeSubscription}"
    and "getObject env rA (TypeNameValue op) = ((ob, Some e), rB)"
  shows "addOperations env (pre @ op # post) cfg r = (Some e, cfgA, rB)"
  using assms(1) addOperations_lookup_fails [OF assms(2,3)]
  by (simp add: addOperations_append)

lemma addOperations_root:
  assumes pre: "addOperations env pre cfg r = (None, cfgA, rA)"
    and look: "getObject env rA (TypeNameValue op) = ((ob, None), rB)"
    and last: "\<forall>p\<in>set post. Operation p \<noteq> Operation op"
    and all: "addOperations env (pre @ op # post) cfg r = (None, cfg1, r1)"
  shows "(Operation op = OperationTypeQuery \<longrightarrow> Query cfg1 = ob)
    \<and> (Operation op = OperationTypeMutation \<longrightarrow> Mutation cfg1 = ob)
    \<and> (Operation op = OperationTypeSubscription \<longrightarrow> Subscription cfg1 = ob)"
proof -
  from pre all have rest: "addOperations env (op # post) cfgA rA = (None, cfg1, r1)"
    by (simp add: addOperations_append)
  show ?thesis
  proof (intro conjI impI)
    assume q: "Operation op = OperationTypeQuery"
    with rest look have "addOperations env post (cfgA\<lparr>Query := ob\<rparr>) rB = (None, cfg1, r1)"
      by simp
    with last q have "Query cfg1 = Query (cfgA\<lparr>Query := ob\<rparr>)"
      by (intro addOperations_keeps_Query) auto
    then show "Query cfg1 = ob" by simp
  next
    assume m: "Operation op = OperationTypeMutation"
    with rest look have "addOperations env post (cfgA\<lparr>Mutation := ob\<rparr>) rB = (None, cfg1, r1)"
      by (simp add: operation_names_distinct [symmetric])
    with last m have "Mutation cfg1 = Mutation (cfgA\<lparr>Mutation := ob\<rparr>)"
      by (intro addOperations_keeps_Mutation) auto
    then show "Mutation cfg1 = ob" by simp
  next
    assume s: "Operation op = OperationTypeSubscription"
    with rest look
    have "addOperations env post (cfgA\<lparr>Subscription := ob\<rparr>) rB = (None, cfg1, r1)"
      by (simp add: operation_names_distinct [symmetric])
    with last s have "Subscription cfg1 = Subscription (cfgA\<lparr>Subscription := ob\<rparr>)"
      by (intro addOperations_keeps_Subscription) auto
    then show "Subscription cfg1 = ob" by simp
  qed
qed

text \<open>
  C5. \<^verbatim>\<open>buildSchemaFromAST\<close> on a schema definition. First, when the lookups of the
  operation types before some declared query, mutation or subscription type succeed
  and the lookup of that type returns an error, the function returns that error.
  Second, when every lookup succeeds, the root of each declared operation is the object
  that \<^verbatim>\<open>getObject\<close> returned for the type name declared last for that operation.
  Third, when the operations are added, the directives of the schema definition are
  applied to the resulting configuration and \<^verbatim>\<open>graphql.NewSchema\<close> accepts what the
  directives leave, the function returns no error and the registry holds that schema.
\<close>

theorem buildSchemaFromAST_declared_roots:
  "(\<forall>pre op post cfgA rA ob e rB.
      OperationTypes d = pre @ op # post \<and>
      addOperations env pre (initialSchemaConfig env c) (internals c) = (None, cfgA, rA) \<and>
      Operation op \<in> {OperationTypeQuery, OperationTypeMutation, OperationTypeSubscription} \<and>
      getObject env rA (TypeNameValue op) = ((ob, Some e), rB) \<longrightarrow>
        buildSchemaFromAST env d t c = (Some e, c\<lparr>internals := rB\<rparr>))
   \<and> (\<forall>pre op post cfgA rA ob rB cfg1 r1.
      OperationTypes d = pre @ op # post \<and>
      addOperations env pre (initialSchemaConfig env c) (internals c) = (None, cfgA, rA) \<and>
      getObject env rA (TypeNameValue op) = ((ob, None), rB) \<and>
      (\<forall>p\<in>set post. Operation p \<noteq> Operation op) \<and>
      addOperations env (OperationTypes d) (initialSchemaConfig env c) (internals c)
        = (None, cfg1, r1) \<longrightarrow>
        (Operation op = OperationTypeQuery \<longrightarrow> Query cfg1 = ob) \<and>
        (Operation op = OperationTypeMutation \<longrightarrow> Mutation cfg1 = ob) \<and>
        (Operation op = OperationTypeSubscription \<longrightarrow> Subscription cfg1 = ob))
   \<and> (\<forall>cfg1 r1 cfg2 r2 s.
      addOperations env (OperationTypes d) (initialSchemaConfig env c) (internals c)
        = (None, cfg1, r1) \<and>
      applyDirectives env
        \<lparr>config = cfg1, directives = NodeDirectives d, node = d, allowThunks = t\<rparr> r1
        = (None, cfg2, r2) \<and>
      NewSchema env cfg2 = (s, None) \<longrightarrow>
        buildSchemaFromAST env d t c = (None, c\<lparr>schema := Some s, internals := r2\<rparr>))"
  (is "?abort \<and> ?roots \<and> ?store")
proof -
  have abort: ?abort
  proof (intro allI impI)
    fix pre op post cfgA rA ob e rB
    assume h: "OperationTypes d = pre @ op # post \<and>
      addOperations env pre (initialSchemaConfig env c) (internals c) = (None, cfgA, rA) \<and>
      Operation op \<in> {OperationTypeQuery, OperationTypeMutation, OperationTypeSubscription} \<and>
      getObject env rA (TypeNameValue op) = ((ob, Some e), rB)"
    then have "addOperations env (pre @ op # post) (initialSchemaConfig env c) (internals c)
      = (Some e, cfgA, rB)"
      by (intro addOperations_first_failure) auto
    with h show "buildSchemaFromAST env d t c = (Some e, c\<lparr>internals := rB\<rparr>)"
      by (simp add: buildSchemaFromAST_def)
  qed
  have roots: ?roots
  proof (intro allI, rule impI)
    fix pre op post cfgA rA ob rB cfg1 r1
    assume h: "OperationTypes d = pre @ op # post \<and>
      addOperations env pre (initialSchemaConfig env c) (internals c) = (None, cfgA, rA) \<and>
      getObject env rA (TypeNameValue op) = ((ob, None), rB) \<and>
      (\<forall>p\<in>set post. Operation p \<noteq> Operation op) \<and>
      addOperations env (OperationTypes d) (initialSchemaConfig env c) (internals c)
        = (None, cfg1, r1)"
    then have pre: "addOperations env pre (initialSchemaConfig env c) (internals c)
        = (None, cfgA, rA)"
      and look: "getObject env rA (TypeNameValue op) = ((ob, None), rB)"
      and last: "\<forall>p\<in>set post. Operation p \<noteq> Operation op"
      and all: "addOperations env (pre @ op # post) (initialSchemaConfig env c) (internals c)
        = (None, cfg1, r1)"
      by auto
    show "(Operation op = OperationTypeQuery \<longrightarrow> Query cfg1 = ob) \<and>
        (Operation op = OperationTypeMutation \<longrightarrow> Mutation cfg1 = ob) \<and>
        (Operation op = OperationTypeSubscription \<longrightarrow> Subscription cfg1 = ob)"
      by (rule addOperations_root [OF pre look last all])
  qed
  have store: ?store
    by (simp add: buildSchemaFromAST_def)
  from abort roots store show ?thesis
    by (intro conjI)
qed

theorem buildSchemaFromAST_declared_roots_witness:
  "buildSchemaFromAST (exEnv (exDocSchema exDefRoots) exTablesRoots) exDefMissing False
       (exRegistry (exDocSchema exDefRoots) exTablesRoots)
     = (Some (Error ''no definition found for type Missing''),
        exRegistry (exDocSchema exDefRoots) exTablesRoots)
   \<and> Query (fst (snd (addOperations (exEnv (exDocSchema exDefRoots) exTablesRoots)
        (OperationTypes exDefRoots)
        (initialSchemaConfig (exEnv (exDocSchema exDefRoots) exTablesRoots)
           (exRegistry (exDocSchema exDefRoots) exTablesRoots))
        (internals (exRegistry (exDocSchema exDefRoots) exTablesRoots)))))
     = Some (Object ''Foo'')
   \<and> Mutation (fst (snd (addOperations (exEnv (exDocSchema exDefRoots) exTablesRoots)
        (OperationTypes exDefRoots)
        (initialSchemaConfig (exEnv (exDocSchema exDefRoots) exTablesRoots)
           (exRegistry (exDocSchema exDefRoots) exTablesRoots))
        (internals (exRegistry (exDocSchema exDefRoots) exTablesRoots)))))
     = Some (Object ''Change'')
   \<and> Subscription (fst (snd (addOperations (exEnv (exDocSchema exDefRoots) exTablesRoots)
        (OperationTypes exDefRoots)
        (initialSchemaConfig (exEnv (exDocSchema exDefRoots) exTablesRoots)
           (exRegistry (exDocSchema exDefRoots) exTablesRoots))
        (internals (exRegistry (exDocSchema exDefRoots) exTablesRoots)))))
     = Some (Object ''Feed'')
   \<and> buildSchemaFromAST (exEnv (exDocSchema exDefRoots) exTablesRoots) exDefRoots False
       (exRegistry (exDocSchema exDefRoots) exTablesRoots)
     = (None, (exRegistry (exDocSchema exDefRoots) exTablesRoots)
        \<lparr>schema := Some \<lparr>queryType = Some (Object ''Foo''),
           mutationType = Some (Object ''Change''),
           subscriptionType = Some (Object ''Feed''),
           typeMap = [ObjectType (Object ''Query''), ObjectType (Object ''Foo''),
                      ObjectType (Object ''Change''), ObjectType (Object ''Feed'')],
           schemaDirectives = [Directive ''tag''], schemaExtensions = []\<rparr>\<rparr>)"
proof -
  let ?env = "exEnv (exDocSchema exDefRoots) exTablesRoots"
  let ?reg = "exRegistry (exDocSchema exDefRoots) exTablesRoots"
  let ?cfg0 = "initialSchemaConfig ?env ?reg"
  let ?cfgQ = "?cfg0\<lparr>Query := Some (Object ''Foo'')\<rparr>"
  let ?cfgM = "?cfgQ\<lparr>Mutation := Some (Object ''Change'')\<rparr>"
  let ?cfgS = "?cfgM\<lparr>Subscription := Some (Object ''Feed'')\<rparr>"
  have tabs: "internals ?reg = exTablesRoots"
    by (simp add: ex_defs)
  have opsM: "OperationTypes exDefMissing = [exOpQuery] @ exOpMissing # [exOpSubscription]"
    by (simp add: ex_data)
  have ops0: "OperationTypes exDefRoots = [] @ exOpQuery # [exOpMutation, exOpSubscription]"
    by (simp add: ex_data)
  have ops1: "OperationTypes exDefRoots = [exOpQuery] @ exOpMutation # [exOpSubscription]"
    by (simp add: ex_data)
  have ops2: "OperationTypes exDefRoots = [exOpQuery, exOpMutation] @ exOpSubscription # []"
    by (simp add: ex_data)
  have pre0: "addOperations ?env [] ?cfg0 (internals ?reg) = (None, ?cfg0, exTablesRoots)"
    by (simp add: ex_defs)
  have pre1: "addOperations ?env [exOpQuery] ?cfg0 (internals ?reg)
      = (None, ?cfgQ, exTablesRoots)"
    by (simp add: ex_defs ex_data)
  have pre2: "addOperations ?env [exOpQuery, exOpMutation] ?cfg0 (internals ?reg)
      = (None, ?cfgM, exTablesRoots)"
    by (simp add: ex_defs ex_data)
  have all: "addOperations ?env (OperationTypes exDefRoots) ?cfg0 (internals ?reg)
      = (None, ?cfgS, exTablesRoots)"
    by (simp add: ex_defs ex_data)
  have kindM: "Operation exOpMissing
      \<in> {OperationTypeQuery, OperationTypeMutation, OperationTypeSubscription}"
    by (simp add: ex_defs ex_data)
  have lookM: "getObject ?env exTablesRoots (TypeNameValue exOpMissing)
      = ((None, Some (Error ''no definition found for type Missing'')), exTablesRoots)"
    by (simp add: ex_defs ex_data)
  have look0: "getObject ?env exTablesRoots (TypeNameValue exOpQuery)
      = ((Some (Object ''Foo''), None), exTablesRoots)"
    by (simp add: ex_defs ex_data)
  have look1: "getObject ?env exTablesRoots (TypeNameValue exOpMutation)
      = ((Some (Object ''Change''), None), exTablesRoots)"
    by (simp add: ex_defs ex_data)
  have look2: "getObject ?env exTablesRoots (TypeNameValue exOpSubscription)
      = ((Some (Object ''Feed''), None), exTablesRoots)"
    by (simp add: ex_defs ex_data)
  have last0: "\<forall>p\<in>set [exOpMutation, exOpSubscription]. Operation p \<noteq> Operation exOpQuery"
    by (simp add: ex_data)
  have last1: "\<forall>p\<in>set [exOpSubscription]. Operation p \<noteq> Operation exOpMutation"
    by (simp add: ex_data)
  have last2: "\<forall>p\<in>set []. Operation p \<noteq> Operation exOpSubscription"
    by simp
  have kinds: "Operation exOpQuery = OperationTypeQuery"
    "Operation exOpMutation = OperationTypeMutation"
    "Operation exOpSubscription = OperationTypeSubscription"
    by (simp_all add: ex_defs ex_data)
  have dirs: "applyDirectives ?env
      \<lparr>config = ?cfgS, directives = NodeDirectives exDefRoots, node = exDefRoots,
       allowThunks = False\<rparr> exTablesRoots = (None, ?cfgS, exTablesRoots)"
    by (simp add: ex_defs ex_data)
  have built: "NewSchema ?env ?cfgS =
      (\<lparr>queryType = Some (Object ''Foo''), mutationType = Some (Object ''Change''),
        subscriptionType = Some (Object ''Feed''),
        typeMap = [ObjectType (Object ''Query''), ObjectType (Object ''Foo''),
                   ObjectType (Object ''Change''), ObjectType (Object ''Feed'')],
        schemaDirectives = [Directive ''tag''], schemaExtensions = []\<rparr>, None)"
    by (simp add: ex_defs ex_data)
  note T = buildSchemaFromAST_declared_roots [where env = ?env and c = ?reg and t = False]
  note abort = T [where d = exDefMissing, THEN conjunct1, rule_format,
      OF conjI [OF opsM conjI [OF pre1 conjI [OF kindM lookM]]]]
  note R = T [where d = exDefRoots, THEN conjunct2, THEN conjunct1, rule_format]
  note rootQ = R [OF conjI [OF ops0 conjI [OF pre0 conjI [OF look0 conjI [OF last0 all]]]],
      THEN conjunct1, rule_format, OF kinds(1)]
  note rootM = R [OF conjI [OF ops1 conjI [OF pre1 conjI [OF look1 conjI [OF last1 all]]]],
      THEN conjunct2, THEN conjunct1, rule_format, OF kinds(2)]
  note rootS = R [OF conjI [OF ops2 conjI [OF pre2 conjI [OF look2 conjI [OF last2 all]]]],
      THEN conjunct2, THEN conjunct2, rule_format, OF kinds(3)]
  note store = T [where d = exDefRoots, THEN conjunct2, THEN conjunct2, rule_format,
      OF conjI [OF all conjI [OF dirs built]]]
  have unchanged: "?reg\<lparr>internals := exTablesRoots\<rparr> = ?reg"
    by (simp add: ex_defs)
  have c1: "buildSchemaFromAST ?env exDefMissing False ?reg
      = (Some (Error ''no definition found for type Missing''), ?reg)"
    using abort by (simp only: unchanged)
  have c2: "Query (fst (snd (addOperations ?env (OperationTypes exDefRoots) ?cfg0
      (internals ?reg)))) = Some (Object ''Foo'')"
    using rootQ by (simp only: all fst_conv snd_conv)
  have c3: "Mutation (fst (snd (addOperations ?env (OperationTypes exDefRoots) ?cfg0
      (internals ?reg)))) = Some (Object ''Change'')"
    using rootM by (simp only: all fst_conv snd_conv)
  have c4: "Subscription (fst (snd (addOperations ?env (OperationTypes exDefRoots) ?cfg0
      (internals ?reg)))) = Some (Object ''Feed'')"
    using rootS by (simp only: all fst_conv snd_conv)
  have c5: "buildSchemaFromAST ?env exDefRoots False ?reg
     = (None, ?reg
        \<lparr>schema := Some \<lparr>queryType = Some (Object ''Foo''),
           mutationType = Some (Object ''Change''),
           subscriptionType = Some (Object ''Feed''),
           typeMap = [ObjectType (Object ''Query''), ObjectType (Object ''Foo''),
                      ObjectType (Object ''Change''), ObjectType (Object ''Feed'')],
           schemaDirectives = [Directive ''tag''], schemaExtensions = []\<rparr>\<rparr>)"
    using store by (simp add: exRegistry_def)
  from c1 c2 c3 c4 c5 show ?thesis
    by (intro conjI)
qed


text \<open>
  C10. When \<^verbatim>\<open>buildSchemaFromAST\<close> returns an error, the registry's \<open>schema\<close> field is the
  one it had before the call. When it returns no error, the operations were added, the
  directives applied and \<^verbatim>\<open>graphql.NewSchema\<close> called, each without error, and the
  field holds the schema that \<^verbatim>\<open>NewSchema\<close> returned.
\<close>

theorem buildSchemaFromAST_assigns_schema_last:
  "(\<forall>e. fst (buildSchemaFromAST env d t c) = Some e \<longrightarrow>
       schema (snd (buildSchemaFromAST env d t c)) = schema c)
   \<and> (fst (buildSchemaFromAST env d t c) = None \<longrightarrow>
       (\<exists>cfg1 r1 cfg2 r2 s.
          addOperations env (OperationTypes d) (initialSchemaConfig env c) (internals c)
            = (None, cfg1, r1)
        \<and> applyDirectives env
            \<lparr>config = cfg1, directives = NodeDirectives d, node = d, allowThunks = t\<rparr> r1
            = (None, cfg2, r2)
        \<and> NewSchema env cfg2 = (s, None)
        \<and> snd (buildSchemaFromAST env d t c) = c\<lparr>schema := Some s, internals := r2\<rparr>))"
  by (auto simp: buildSchemaFromAST_def split: prod.splits option.splits)

theorem buildSchemaFromAST_assigns_schema_last_witness:
  "fst (buildSchemaFromAST (exEnv (exDocSchema exDefRoots) exTablesRoots) exDefMissing False
       (exRegistry (exDocSchema exDefRoots) exTablesRoots))
     = Some (Error ''no definition found for type Missing'')
   \<and> schema (snd (buildSchemaFromAST (exEnv (exDocSchema exDefRoots) exTablesRoots)
       exDefMissing False (exRegistry (exDocSchema exDefRoots) exTablesRoots)))
     = schema (exRegistry (exDocSchema exDefRoots) exTablesRoots)
   \<and> fst (buildSchemaFromAST (exEnv (exDocSchema exDefRoots) exTablesRoots) exDefRoots False
       (exRegistry (exDocSchema exDefRoots) exTablesRoots)) = None
   \<and> schema (snd (buildSchemaFromAST (exEnv (exDocSchema exDefRoots) exTablesRoots)
       exDefRoots False (exRegistry (exDocSchema exDefRoots) exTablesRoots)))
     = Some \<lparr>queryType = Some (Object ''Foo''), mutationType = Some (Object ''Change''),
         subscriptionType = Some (Object ''Feed''),
         typeMap = [ObjectType (Object ''Query''), ObjectType (Object ''Foo''),
                    ObjectType (Object ''Change''), ObjectType (Object ''Feed'')],
         schemaDirectives = [Directive ''tag''], schemaExtensions = []\<rparr>"
proof -
  let ?env = "exEnv (exDocSchema exDefRoots) exTablesRoots"
  let ?reg = "exRegistry (exDocSchema exDefRoots) exTablesRoots"
  have a: "fst (buildSchemaFromAST ?env exDefMissing False ?reg)
      = Some (Error ''no definition found for type Missing'')"
    by (simp add: ex_defs ex_data)
  have b: "fst (buildSchemaFromAST ?env exDefRoots False ?reg) = None"
    by (simp add: ex_defs ex_data)
  note A = buildSchemaFromAST_assigns_schema_last [THEN conjunct1, rule_format, OF a]
  from buildSchemaFromAST_assigns_schema_last [THEN conjunct2, rule_format, OF b]
  obtain cfg2 r2 s where
    "NewSchema ?env cfg2 = (s, None)"
    "snd (buildSchemaFromAST ?env exDefRoots False ?reg) = ?reg\<lparr>schema := Some s, internals := r2\<rparr>"
    by blast
  then have B: "schema (snd (buildSchemaFromAST ?env exDefRoots False ?reg)) \<noteq> None"
    by simp
  have c: "schema (snd (buildSchemaFromAST ?env exDefRoots False ?reg))
     = Some \<lparr>queryType = Some (Object ''Foo''), mutationType = Some (Object ''Change''),
         subscriptionType = Some (Object ''Feed''),
         typeMap = [ObjectType (Object ''Query''), ObjectType (Object ''Foo''),
                    ObjectType (Object ''Change''), ObjectType (Object ''Feed'')],
         schemaDirectives = [Directive ''tag''], schemaExtensions = []\<rparr>"
    by (simp add: ex_defs ex_data)
  from a A b B c show ?thesis
    by simp
qed


section \<open>An explicit schema declaration\<close>

text \<open>
  The loop and \<^verbatim>\<open>buildSchemaFromAST\<close> consult \<^verbatim>\<open>getObject\<close> only at the declared type
  names, and \<^verbatim>\<open>applyDirectives\<close> only with the flag they were given; a successful
  \<^verbatim>\<open>buildSchemaFromAST\<close> leaves a schema in the registry.
\<close>

lemma addOperations_agree:
  assumes "\<forall>p\<in>set ops. \<forall>r. getObject env' r (TypeNameValue p) = getObject env r (TypeNameValue p)"
  shows "addOperations env' ops cfg r = addOperations env ops cfg r"
  using assms
proof (induction ops arbitrary: cfg r)
  case Nil
  show ?case by simp
next
  case (Cons op ops)
  then have here: "getObject env' r (TypeNameValue op) = getObject env r (TypeNameValue op)"
    and rest: "\<And>cfg r. addOperations env' ops cfg r = addOperations env ops cfg r"
    by simp_all
  show ?case
    by (simp add: here rest split: prod.splits option.splits)
qed

lemma buildSchemaFromAST_agree:
  assumes "\<forall>p\<in>set (OperationTypes d). \<forall>r.
      getObject env' r (TypeNameValue p) = getObject env r (TypeNameValue p)"
    and "typeArray env' = typeArray env"
    and "directiveArray env' = directiveArray env"
    and "NewSchema env' = NewSchema env"
    and "\<forall>p r. allowThunks p = t \<longrightarrow> applyDirectives env' p r = applyDirectives env p r"
  shows "buildSchemaFromAST env' d t c = buildSchemaFromAST env d t c"
  using assms(2-5)
  by (auto simp: buildSchemaFromAST_def addOperations_agree [OF assms(1)]
      split: prod.splits option.splits)

lemma buildSchemaFromAST_stores:
  "buildSchemaFromAST env d t c = (None, c') \<Longrightarrow> \<exists>s. schema c' = Some s"
  by (auto simp: buildSchemaFromAST_def split: prod.splits option.splits)

lemma withSpecResolve_fields:
  "ConcatenateTypeDefs (withSpecResolve resolve env) = ConcatenateTypeDefs env"
  "newRegistry (withSpecResolve resolve env) = newRegistry env"
  "IdentifyDependencies (withSpecResolve resolve env) = IdentifyDependencies env"
  "resolveDefinitions (withSpecResolve resolve env) = specResolveDefinitions resolve env"
  "getObject (withSpecResolve resolve env) = getObject env"
  "typeArray (withSpecResolve resolve env) = typeArray env"
  "directiveArray (withSpecResolve resolve env) = directiveArray env"
  "applyDirectives (withSpecResolve resolve env) = applyDirectives env"
  "NewSchema (withSpecResolve resolve env) = NewSchema env"
  "MarshalIndent (withSpecResolve resolve env) = MarshalIndent env"
  by (simp_all add: withSpecResolve_def)

text \<open>
  \<^verbatim>\<open>Make\<close> on a document with a schema definition, under the \<^verbatim>\<open>resolveDefinitions\<close> of
  the specification: the lookups under the default names are not reached.
\<close>

lemma Make_spec_explicit:
  assumes "ConcatenateTypeDefs env c = Inr doc"
    and "newRegistry env ctx (Resolvers c) (SchemaDirectives c) (ConfigExtensions c) doc
          = Inr reg0"
    and "schemaDefinitionOf (document reg0) = Some d"
  shows "Make (withSpecResolve resolve env) c ctx out =
    (case resolveDeclarations resolve (document reg0) (internals reg0) of
      (Some e, r0) \<Rightarrow> ((emptySchema, Some e), out)
    | (None, r0) \<Rightarrow>
      (case buildSchemaFromAST env d False
              (reg0\<lparr>dependencyMap := IdentifyDependencies env reg0, internals := r0\<rparr>) of
        (Some e, reg1) \<Rightarrow> ((emptySchema, Some e), out)
      | (None, reg1) \<Rightarrow> ((the (schema reg1), None), out)))"
proof -
  obtain res r0 where decls:
    "resolveDeclarations resolve (document reg0) (internals reg0) = (res, r0)"
    by (metis surj_pair)
  obtain err reg1 where build: "buildSchemaFromAST env d False
      (reg0\<lparr>dependencyMap := IdentifyDependencies env reg0, internals := r0\<rparr>) = (err, reg1)"
    by (metis surj_pair)
  show ?thesis
  proof (cases res)
    case (Some e)
    with assms decls show ?thesis
      by (simp add: Make_def withSpecResolve_fields specResolveDefinitions_def)
  next
    case None
    show ?thesis
    proof (cases err)
      case (Some e)
      with assms decls build None show ?thesis
        by (simp add: Make_def withSpecResolve_fields specResolveDefinitions_def)
    next
      case noerr: None
      with build obtain s where "schema reg1 = Some s"
        using buildSchemaFromAST_stores by blast
      with assms decls build None noerr show ?thesis
        by (simp add: Make_def withSpecResolve_fields specResolveDefinitions_def)
    qed
  qed
qed

lemma specApplyDirectives_keeps_Query:
  assumes "\<forall>(n, b)\<in>set table. \<forall>target args target'.
      b target args = Applied target' \<longrightarrow> Query target' = Query target"
    and "specApplyDirectives table t ds target = (res, target')"
  shows "Query target' = Query target"
  using assms(2)
proof (induction ds arbitrary: target)
  case Nil
  then show ?case by simp
next
  case (Cons d ds)
  show ?case
  proof (cases "map_of table (DirectiveName d)")
    case None
    with Cons.prems show ?thesis by simp
  next
    case (Some b)
    then have "(DirectiveName d, b) \<in> set table"
      by (rule map_of_SomeD)
    with assms(1) have keeps: "\<And>tg. b target (Arguments d) = Applied tg \<Longrightarrow>
        Query tg = Query target"
      by blast
    show ?thesis
    proof (cases "b target (Arguments d)")
      case (Applied tg)
      with Cons.prems Some have "specApplyDirectives table t ds tg = (res, target')"
        by simp
      from Cons.IH [OF this] keeps [OF Applied] show ?thesis
        by simp
    next
      case RequiresThunk
      with Cons.prems Some Cons.IH show ?thesis
        by (cases t) simp_all
    next
      case (Failed e)
      with Cons.prems Some show ?thesis by simp
    qed
  qed
qed

text \<open>
  C2, as the code has it, with \<^verbatim>\<open>resolveDefinitions\<close> as the specification describes it.
  Let the document hold a schema definition. First, when the declarations resolve,
  every root lookup of the definition succeeds, its directives apply and
  \<^verbatim>\<open>graphql.NewSchema\<close> accepts the configuration they leave, \<^verbatim>\<open>Make\<close> returns the schema
  built from the definition, without an error and without printing. The query root of
  the configuration handed to the directive application is the object that \<^verbatim>\<open>getObject\<close>
  returned for the type named by the last \<^verbatim>\<open>query\<close> operation. When no registered
  directive behaviour changes the query root of its target, it is the query root of the
  configuration given to \<^verbatim>\<open>NewSchema\<close> too, and the query root of the schema that \<^verbatim>\<open>Make\<close>
  returns if \<^verbatim>\<open>NewSchema\<close> takes a schema's query root from its configuration. Second,
  when no declared type name is one of
  the three default names, the result of \<^verbatim>\<open>Make\<close> does not depend on what \<^verbatim>\<open>getObject\<close>
  does at \<open>Query\<close>, \<open>Mutation\<close> and \<open>Subscription\<close>: the default names are not looked up,
  whether or not types of those names exist.
\<close>

theorem explicit_schema_declaration_returned:
  assumes "ConcatenateTypeDefs env c = Inr doc"
    and "newRegistry env ctx (Resolvers c) (SchemaDirectives c) (ConfigExtensions c) doc
          = Inr reg0"
    and "schemaDefinitionOf (document reg0) = Some d"
  shows "(\<forall>r0 pre op post cfgA rA ob rB cfg1 r1 cfg2 r2 s.
      resolveDeclarations resolve (document reg0) (internals reg0) = (None, r0) \<and>
      OperationTypes d = pre @ op # post \<and>
      Operation op = OperationTypeQuery \<and>
      (\<forall>p\<in>set post. Operation p \<noteq> OperationTypeQuery) \<and>
      addOperations env pre
        (initialSchemaConfig env
          (reg0\<lparr>dependencyMap := IdentifyDependencies env reg0, internals := r0\<rparr>)) r0
        = (None, cfgA, rA) \<and>
      getObject env rA (TypeNameValue op) = ((ob, None), rB) \<and>
      addOperations env (OperationTypes d)
        (initialSchemaConfig env
          (reg0\<lparr>dependencyMap := IdentifyDependencies env reg0, internals := r0\<rparr>)) r0
        = (None, cfg1, r1) \<and>
      applyDirectives env
        \<lparr>config = cfg1, directives = NodeDirectives d, node = d, allowThunks = False\<rparr> r1
        = (None, cfg2, r2) \<and>
      NewSchema env cfg2 = (s, None) \<longrightarrow>
        Query cfg1 = ob \<and>
        Make (withSpecResolve resolve env) c ctx out = ((s, None), out) \<and>
        (\<forall>table.
          applyDirectives env = specApplyDirectivesMethod table \<and>
          (\<forall>(n, b)\<in>set table. \<forall>target args target'.
              b target args = Applied target' \<longrightarrow> Query target' = Query target) \<longrightarrow>
            Query cfg2 = ob \<and>
            ((\<forall>cfg sch. NewSchema env cfg = (sch, None) \<longrightarrow> queryType sch = Query cfg) \<longrightarrow>
              queryType (fst (fst (Make (withSpecResolve resolve env) c ctx out))) = ob)))
   \<and> (\<forall>g.
      (\<forall>p\<in>set (OperationTypes d). TypeNameValue p \<notin>
          {DefaultRootQueryName, DefaultRootMutationName, DefaultRootSubscriptionName}) \<longrightarrow>
        Make (withSpecResolve resolve
          (env\<lparr>getObject := \<lambda>r n.
             if n \<in> {DefaultRootQueryName, DefaultRootMutationName, DefaultRootSubscriptionName}
             then g r n else getObject env r n\<rparr>)) c ctx out
        = Make (withSpecResolve resolve env) c ctx out)"
  (is "?built \<and> ?unconsulted")
proof
  show ?built
  proof (intro allI, rule impI, elim conjE)
    fix r0 pre op post cfgA rA ob rB cfg1 r1 cfg2 r2 s
    let ?regA = "reg0\<lparr>dependencyMap := IdentifyDependencies env reg0, internals := r0\<rparr>"
    assume decls: "resolveDeclarations resolve (document reg0) (internals reg0) = (None, r0)"
      and ops: "OperationTypes d = pre @ op # post"
      and kind: "Operation op = OperationTypeQuery"
      and last: "\<forall>p\<in>set post. Operation p \<noteq> OperationTypeQuery"
      and pre: "addOperations env pre (initialSchemaConfig env ?regA) r0 = (None, cfgA, rA)"
      and look: "getObject env rA (TypeNameValue op) = ((ob, None), rB)"
      and all: "addOperations env (OperationTypes d) (initialSchemaConfig env ?regA) r0
        = (None, cfg1, r1)"
      and dirs: "applyDirectives env
        \<lparr>config = cfg1, directives = NodeDirectives d, node = d, allowThunks = False\<rparr> r1
        = (None, cfg2, r2)"
      and built: "NewSchema env cfg2 = (s, None)"
    from last kind have last': "\<forall>p\<in>set post. Operation p \<noteq> Operation op"
      by simp
    from all ops have all': "addOperations env (pre @ op # post)
        (initialSchemaConfig env ?regA) r0 = (None, cfg1, r1)"
      by simp
    from addOperations_root [OF pre look last' all'] kind have root: "Query cfg1 = ob"
      by simp
    from all dirs built
    have "buildSchemaFromAST env d False ?regA = (None, ?regA\<lparr>schema := Some s, internals := r2\<rparr>)"
      by (simp add: buildSchemaFromAST_def)
    with decls have made: "Make (withSpecResolve resolve env) c ctx out = ((s, None), out)"
      by (simp add: Make_spec_explicit [OF assms])
    have kept: "\<forall>table.
          applyDirectives env = specApplyDirectivesMethod table \<and>
          (\<forall>(n, b)\<in>set table. \<forall>target args target'.
              b target args = Applied target' \<longrightarrow> Query target' = Query target) \<longrightarrow>
            Query cfg2 = ob \<and>
            ((\<forall>cfg sch. NewSchema env cfg = (sch, None) \<longrightarrow> queryType sch = Query cfg) \<longrightarrow>
              queryType (fst (fst (Make (withSpecResolve resolve env) c ctx out))) = ob)"
    proof (intro allI, rule impI, elim conjE)
      fix table :: "(name \<times> Behavior) list"
      assume applied: "applyDirectives env = specApplyDirectivesMethod table"
        and keeps: "\<forall>(n, b)\<in>set table. \<forall>target args target'.
              b target args = Applied target' \<longrightarrow> Query target' = Query target"
      from dirs applied
      have "specApplyDirectives table False (NodeDirectives d) cfg1 = (None, cfg2)"
        by (simp add: specApplyDirectivesMethod_def split: prod.splits)
      from specApplyDirectives_keeps_Query [OF keeps this] root
      have handed: "Query cfg2 = ob"
        by simp
      have "queryType (fst (fst (Make (withSpecResolve resolve env) c ctx out))) = ob"
        if "\<forall>cfg sch. NewSchema env cfg = (sch, None) \<longrightarrow> queryType sch = Query cfg"
        using that built handed made by simp
      with handed show "Query cfg2 = ob \<and>
            ((\<forall>cfg sch. NewSchema env cfg = (sch, None) \<longrightarrow> queryType sch = Query cfg) \<longrightarrow>
              queryType (fst (fst (Make (withSpecResolve resolve env) c ctx out))) = ob)"
        by blast
    qed
    from root made kept show "Query cfg1 = ob \<and>
        Make (withSpecResolve resolve env) c ctx out = ((s, None), out) \<and>
        (\<forall>table.
          applyDirectives env = specApplyDirectivesMethod table \<and>
          (\<forall>(n, b)\<in>set table. \<forall>target args target'.
              b target args = Applied target' \<longrightarrow> Query target' = Query target) \<longrightarrow>
            Query cfg2 = ob \<and>
            ((\<forall>cfg sch. NewSchema env cfg = (sch, None) \<longrightarrow> queryType sch = Query cfg) \<longrightarrow>
              queryType (fst (fst (Make (withSpecResolve resolve env) c ctx out))) = ob))"
      by (intro conjI)
  qed
next
  show ?unconsulted
  proof (intro allI impI)
    fix g
    let ?defaults = "{DefaultRootQueryName, DefaultRootMutationName, DefaultRootSubscriptionName}"
    let ?env' = "env\<lparr>getObject := \<lambda>r n. if n \<in> ?defaults then g r n else getObject env r n\<rparr>"
    assume names: "\<forall>p\<in>set (OperationTypes d). TypeNameValue p \<notin> ?defaults"
    have same: "buildSchemaFromAST ?env' d False reg = buildSchemaFromAST env d False reg"
      for reg
      using names by (intro buildSchemaFromAST_agree) auto
    have deps: "IdentifyDependencies ?env' = IdentifyDependencies env"
      by simp
    have "Make (withSpecResolve resolve ?env') c ctx out =
      (case resolveDeclarations resolve (document reg0) (internals reg0) of
        (Some e, r0) \<Rightarrow> ((emptySchema, Some e), out)
      | (None, r0) \<Rightarrow>
        (case buildSchemaFromAST ?env' d False
                (reg0\<lparr>dependencyMap := IdentifyDependencies ?env' reg0, internals := r0\<rparr>) of
          (Some e, reg1) \<Rightarrow> ((emptySchema, Some e), out)
        | (None, reg1) \<Rightarrow> ((the (schema reg1), None), out)))"
      using assms by (intro Make_spec_explicit) simp_all
    also have "\<dots> = Make (withSpecResolve resolve env) c ctx out"
      by (simp only: same deps Make_spec_explicit [OF assms])
    finally show "Make (withSpecResolve resolve ?env') c ctx out
        = Make (withSpecResolve resolve env) c ctx out" .
  qed
qed

theorem explicit_schema_declaration_returned_witness:
  "Make (withSpecResolve exResolve (exBase (exDocSchema exDefFoo) exTablesRoots))
      exConfig Background []
     = ((\<lparr>queryType = Some (Object ''Foo''), mutationType = None, subscriptionType = None,
          typeMap = [ObjectType (Object ''Query''), ObjectType (Object ''Foo''),
                     ObjectType (Object ''Change''), ObjectType (Object ''Feed'')],
          schemaDirectives = [Directive ''tag''],
          schemaExtensions = [Extension ''tag'']\<rparr>, None), [])
   \<and> Query (fst (snd (applyDirectives (exBase (exDocSchema exDefFoo) exTablesRoots)
        \<lparr>config = \<lparr>Query = Some (Object ''Foo''), Mutation = None, Subscription = None,
           Types = [ObjectType (Object ''Query''), ObjectType (Object ''Foo''),
                    ObjectType (Object ''Change''), ObjectType (Object ''Feed'')],
           Directives = [Directive ''tag''], Extensions = []\<rparr>,
         directives = NodeDirectives exDefFoo, node = exDefFoo, allowThunks = False\<rparr>
        exTablesRoots)))
     = Some (Object ''Foo'')
   \<and> queryType (fst (fst (Make (withSpecResolve exResolve
        (exBase (exDocSchema exDefFoo) exTablesRoots)) exConfig Background [])))
     = Some (Object ''Foo'')
   \<and> Make (withSpecResolve exResolve
        ((exBase (exDocSchema exDefFoo) exTablesRoots)\<lparr>getObject := \<lambda>r n.
           if n \<in> {DefaultRootQueryName, DefaultRootMutationName, DefaultRootSubscriptionName}
           then ((None, Some (Error ''not an object'')), r)
           else getObject (exBase (exDocSchema exDefFoo) exTablesRoots) r n\<rparr>))
      exConfig Background []
     = ((\<lparr>queryType = Some (Object ''Foo''), mutationType = None, subscriptionType = None,
          typeMap = [ObjectType (Object ''Query''), ObjectType (Object ''Foo''),
                     ObjectType (Object ''Change''), ObjectType (Object ''Feed'')],
          schemaDirectives = [Directive ''tag''],
          schemaExtensions = [Extension ''tag'']\<rparr>, None), [])"
proof -
  let ?doc = "exDocSchema exDefFoo"
  let ?env = "exBase ?doc exTablesRoots"
  let ?reg0 = "(exRegistry ?doc exTablesRoots)\<lparr>dependencyMap := []\<rparr>"
  let ?regA = "?reg0\<lparr>dependencyMap := IdentifyDependencies ?env ?reg0,
      internals := exTablesRoots\<rparr>"
  let ?cfg0 = "initialSchemaConfig ?env ?regA"
  let ?cfg1 = "?cfg0\<lparr>Query := Some (Object ''Foo'')\<rparr>"
  let ?cfg2 = "?cfg1\<lparr>Extensions := [Extension ''tag'']\<rparr>"
  have h1: "ConcatenateTypeDefs ?env exConfig = Inr ?doc"
    by (simp add: ex_defs)
  have h2: "newRegistry ?env Background (Resolvers exConfig) (SchemaDirectives exConfig)
      (ConfigExtensions exConfig) ?doc = Inr ?reg0"
    by (simp add: ex_defs)
  have h3: "schemaDefinitionOf (document ?reg0) = Some exDefFoo"
    by (simp add: ex_defs ex_data)
  have decls: "resolveDeclarations exResolve (document ?reg0) (internals ?reg0)
      = (None, exTablesRoots)"
    by (simp add: ex_defs ex_data)
  have ops: "OperationTypes exDefFoo = [] @ exOpQuery # []"
    by (simp add: ex_data)
  have kind: "Operation exOpQuery = OperationTypeQuery"
    by (simp add: ex_defs ex_data)
  have last: "\<forall>p\<in>set []. Operation p \<noteq> OperationTypeQuery"
    by simp
  have pre: "addOperations ?env [] ?cfg0 exTablesRoots = (None, ?cfg0, exTablesRoots)"
    by simp
  have look: "getObject ?env exTablesRoots (TypeNameValue exOpQuery)
      = ((Some (Object ''Foo''), None), exTablesRoots)"
    by (simp add: ex_defs ex_data)
  have all: "addOperations ?env (OperationTypes exDefFoo) ?cfg0 exTablesRoots
      = (None, ?cfg1, exTablesRoots)"
    by (simp add: ex_defs ex_data)
  have dirs: "applyDirectives ?env
      \<lparr>config = ?cfg1, directives = NodeDirectives exDefFoo, node = exDefFoo,
       allowThunks = False\<rparr> exTablesRoots = (None, ?cfg2, exTablesRoots)"
    by (simp add: ex_defs ex_data)
  have built: "NewSchema ?env ?cfg2 =
      (\<lparr>queryType = Some (Object ''Foo''), mutationType = None, subscriptionType = None,
        typeMap = [ObjectType (Object ''Query''), ObjectType (Object ''Foo''),
                   ObjectType (Object ''Change''), ObjectType (Object ''Feed'')],
        schemaDirectives = [Directive ''tag''],
        schemaExtensions = [Extension ''tag'']\<rparr>, None)"
    by (simp add: ex_defs ex_data)
  have names: "\<forall>p\<in>set (OperationTypes exDefFoo). TypeNameValue p \<notin>
      {DefaultRootQueryName, DefaultRootMutationName, DefaultRootSubscriptionName}"
    by (simp add: ex_defs ex_data)
  have applied: "applyDirectives ?env = specApplyDirectivesMethod exTable"
    by (simp add: exBase_def)
  have keeps: "\<forall>(n, b)\<in>set exTable. \<forall>target args target'.
      b target args = Applied target' \<longrightarrow> Query target' = Query target"
    by (auto simp: exTable_def)
  note T = explicit_schema_declaration_returned
    [where resolve = exResolve and out = "[]", OF h1 h2 h3]
  note B = T [THEN conjunct1, rule_format,
      OF conjI [OF decls conjI [OF ops conjI [OF kind conjI [OF last conjI [OF pre
        conjI [OF look conjI [OF all conjI [OF dirs built]]]]]]]]]
  note made = B [THEN conjunct2, THEN conjunct1]
  note K = B [THEN conjunct2, THEN conjunct2, THEN spec, THEN mp, OF conjI [OF applied keeps]]
  note root = K [THEN conjunct1]
  have library: "\<forall>cfg sch. NewSchema ?env cfg = (sch, None) \<longrightarrow> queryType sch = Query cfg"
    by (auto simp: exBase_def exNewSchema_def split: if_splits)
  note returned = K [THEN conjunct2, THEN mp, OF library]
  note U = T [THEN conjunct2,
      THEN spec [where x = "\<lambda>r n. ((None, Some (Error ''not an object'')), r)"],
      THEN mp, OF names]
  have cfg: "?cfg1 = \<lparr>Query = Some (Object ''Foo''), Mutation = None, Subscription = None,
           Types = [ObjectType (Object ''Query''), ObjectType (Object ''Foo''),
                    ObjectType (Object ''Change''), ObjectType (Object ''Feed'')],
           Directives = [Directive ''tag''], Extensions = []\<rparr>"
    by (simp add: ex_defs ex_data)
  have handed: "Query (fst (snd (applyDirectives ?env
        \<lparr>config = ?cfg1, directives = NodeDirectives exDefFoo, node = exDefFoo,
         allowThunks = False\<rparr> exTablesRoots))) = Some (Object ''Foo'')"
    unfolding dirs fst_conv snd_conv by (rule root)
  from made handed [unfolded cfg] returned U [unfolded made] show ?thesis
    by (intro conjI)
qed

text \<open>
  C2 as stated fails where a directive of the schema declaration replaces the query
  root: for \<^verbatim>\<open>schema @reroot { query: Foo }\<close>, with a behaviour \<open>reroot\<close> that makes the
  object \<open>Query\<close> the query root of its target, every step succeeds and the schema that
  \<^verbatim>\<open>Make\<close> returns has the query root \<open>Query\<close>, not the declared \<open>Foo\<close>.
\<close>

theorem explicit_root_replaced_by_schema_directive:
  "schemaDefinitionOf (exDocSchema exDefReroot) = Some exDefReroot
   \<and> map (\<lambda>p. (Operation p, TypeNameValue p)) (OperationTypes exDefReroot)
     = [(''query'', ''Foo'')]
   \<and> getObject ((exBase (exDocSchema exDefReroot) exTablesRoots)
        \<lparr>applyDirectives := specApplyDirectivesMethod exTableRewriting\<rparr>) exTablesRoots ''Foo''
     = ((Some (Object ''Foo''), None), exTablesRoots)
   \<and> Make (withSpecResolve exResolve ((exBase (exDocSchema exDefReroot) exTablesRoots)
        \<lparr>applyDirectives := specApplyDirectivesMethod exTableRewriting\<rparr>))
      exConfig Background []
     = ((\<lparr>queryType = Some (Object ''Query''), mutationType = None, subscriptionType = None,
          typeMap = [ObjectType (Object ''Query''), ObjectType (Object ''Foo''),
                     ObjectType (Object ''Change''), ObjectType (Object ''Feed'')],
          schemaDirectives = [Directive ''tag''], schemaExtensions = []\<rparr>, None), [])"
  by (simp add: Make_def ex_defs ex_data ex_more)

section \<open>The directives of the schema definition\<close>

text \<open>
  \<^verbatim>\<open>buildSchemaFromAST\<close> hands its flag to \<^verbatim>\<open>applyDirectives\<close> as it is, and \<^verbatim>\<open>Make\<close>
  itself applies no directive. In the directive application of the specification, a
  behaviour that asks for a thunk after the directives before it have been applied
  without error ends the application with a \<open>PrematureDirectiveError\<close> when thunks are
  disallowed.
\<close>

lemma specResolveDefinitions_agree:
  assumes "\<And>d c. buildSchemaFromAST env' d False c = buildSchemaFromAST env d False c"
  shows "specResolveDefinitions resolve env' = specResolveDefinitions resolve env"
  by (rule ext) (simp add: specResolveDefinitions_def assms split: prod.splits option.splits)

lemma Make_ignores_applyDirectives:
  "Make (env\<lparr>applyDirectives := ad\<rparr>) c ctx out = Make env c ctx out"
  by (simp add: Make_def cong: sum.case_cong option.case_cong)

lemma specApplyDirectives_append:
  "specApplyDirectives table t (xs @ ys) target =
    (case specApplyDirectives table t xs target of
      (Some e, target') \<Rightarrow> (Some e, target')
    | (None, target') \<Rightarrow> specApplyDirectives table t ys target')"
  by (induction xs arbitrary: target)
    (auto split: prod.splits option.splits BehaviorResult.splits)

lemma specApplyDirectives_premature:
  assumes "specApplyDirectives table False pre cfg = (None, target)"
    and "map_of table (DirectiveName dn) = Some behavior"
    and "behavior target (Arguments dn) = RequiresThunk"
  shows "specApplyDirectives table False (pre @ dn # post) cfg
    = (Some (PrematureDirectiveError (DirectiveName dn)), target)"
  using assms by (simp add: specApplyDirectives_append)

text \<open>
  C6, with \<^verbatim>\<open>resolveDefinitions\<close> and \<^verbatim>\<open>applyDirectives\<close> as the specification describes
  them. First, the directives of a schema definition are applied with thunks
  disallowed only: a directive application that differs from the registry's where
  thunks are allowed, and nowhere else, gives the same result of \<^verbatim>\<open>Make\<close>. Second, when
  the declarations and the roots of the schema definition resolve and one of its
  directives requires a thunk, the directives before it having been applied without
  error, \<^verbatim>\<open>Make\<close> fails with the \<open>PrematureDirectiveError\<close> of that directive: it is not
  deferred.
\<close>

theorem schema_directives_never_thunked:
  "(\<forall>ad. (\<forall>p r. \<not> allowThunks p \<longrightarrow> ad p r = applyDirectives env p r) \<longrightarrow>
      Make (withSpecResolve resolve (env\<lparr>applyDirectives := ad\<rparr>)) c ctx out
        = Make (withSpecResolve resolve env) c ctx out)
   \<and> (\<forall>table doc reg0 d r0 cfg1 r1 pre dn post target behavior.
      applyDirectives env = specApplyDirectivesMethod table \<and>
      ConcatenateTypeDefs env c = Inr doc \<and>
      newRegistry env ctx (Resolvers c) (SchemaDirectives c) (ConfigExtensions c) doc
        = Inr reg0 \<and>
      schemaDefinitionOf (document reg0) = Some d \<and>
      resolveDeclarations resolve (document reg0) (internals reg0) = (None, r0) \<and>
      addOperations env (OperationTypes d)
        (initialSchemaConfig env
          (reg0\<lparr>dependencyMap := IdentifyDependencies env reg0, internals := r0\<rparr>)) r0
        = (None, cfg1, r1) \<and>
      NodeDirectives d = pre @ dn # post \<and>
      specApplyDirectives table False pre cfg1 = (None, target) \<and>
      map_of table (DirectiveName dn) = Some behavior \<and>
      behavior target (Arguments dn) = RequiresThunk \<longrightarrow>
        Make (withSpecResolve resolve env) c ctx out
          = ((emptySchema, Some (PrematureDirectiveError (DirectiveName dn))), out))"
  (is "?disallowed \<and> ?premature")
proof
  show ?disallowed
  proof (intro allI impI)
    fix ad
    assume agree: "\<forall>p r. \<not> allowThunks p \<longrightarrow> ad p r = applyDirectives env p r"
    have "buildSchemaFromAST (env\<lparr>applyDirectives := ad\<rparr>) d False reg
        = buildSchemaFromAST env d False reg" for d reg
      using agree by (intro buildSchemaFromAST_agree) simp_all
    then have "specResolveDefinitions resolve (env\<lparr>applyDirectives := ad\<rparr>)
        = specResolveDefinitions resolve env"
      by (rule specResolveDefinitions_agree)
    then have "withSpecResolve resolve (env\<lparr>applyDirectives := ad\<rparr>)
        = (withSpecResolve resolve env)\<lparr>applyDirectives := ad\<rparr>"
      by (simp add: withSpecResolve_def)
    then show "Make (withSpecResolve resolve (env\<lparr>applyDirectives := ad\<rparr>)) c ctx out
        = Make (withSpecResolve resolve env) c ctx out"
      by (simp only: Make_ignores_applyDirectives)
  qed
next
  show ?premature
  proof (intro allI, rule impI, elim conjE)
    fix table doc reg0 d r0 cfg1 r1 pre dn post target behavior
    let ?regA = "reg0\<lparr>dependencyMap := IdentifyDependencies env reg0, internals := r0\<rparr>"
    assume applied: "applyDirectives env = specApplyDirectivesMethod table"
      and doc: "ConcatenateTypeDefs env c = Inr doc"
      and reg0: "newRegistry env ctx (Resolvers c) (SchemaDirectives c) (ConfigExtensions c)
          doc = Inr reg0"
      and sd: "schemaDefinitionOf (document reg0) = Some d"
      and decls: "resolveDeclarations resolve (document reg0) (internals reg0) = (None, r0)"
      and ops: "addOperations env (OperationTypes d) (initialSchemaConfig env ?regA) r0
          = (None, cfg1, r1)"
      and dirs: "NodeDirectives d = pre @ dn # post"
      and before: "specApplyDirectives table False pre cfg1 = (None, target)"
      and found: "map_of table (DirectiveName dn) = Some behavior"
      and thunk: "behavior target (Arguments dn) = RequiresThunk"
    from specApplyDirectives_premature [OF before found thunk] dirs
    have "applyDirectives env
        \<lparr>config = cfg1, directives = NodeDirectives d, node = d, allowThunks = False\<rparr> r1
      = (Some (PrematureDirectiveError (DirectiveName dn)), target, r1)"
      by (simp add: applied specApplyDirectivesMethod_def)
    with ops have "buildSchemaFromAST env d False ?regA
      = (Some (PrematureDirectiveError (DirectiveName dn)), ?regA\<lparr>internals := r1\<rparr>)"
      by (simp add: buildSchemaFromAST_def)
    with decls show "Make (withSpecResolve resolve env) c ctx out
          = ((emptySchema, Some (PrematureDirectiveError (DirectiveName dn))), out)"
      by (simp add: Make_spec_explicit [OF doc reg0 sd])
  qed
qed

theorem schema_directives_never_thunked_witness:
  "Make (withSpecResolve exResolve
        ((exBase (exDocSchema exDefFoo) exTablesRoots)\<lparr>applyDirectives := \<lambda>p r.
           if allowThunks p then (Some (Error ''thunks allowed''), config p, r)
           else applyDirectives (exBase (exDocSchema exDefFoo) exTablesRoots) p r\<rparr>))
      exConfig Background []
     = Make (withSpecResolve exResolve (exBase (exDocSchema exDefFoo) exTablesRoots))
      exConfig Background []
   \<and> Make (withSpecResolve exResolve (exBase (exDocSchema exDefLazy) exTablesRoots))
      exConfig Background []
     = ((emptySchema, Some (PrematureDirectiveError ''lazy'')), [])"
proof -
  let ?envF = "exBase (exDocSchema exDefFoo) exTablesRoots"
  let ?ad = "\<lambda>p r. if allowThunks p then (Some (Error ''thunks allowed''), config p, r)
      else applyDirectives ?envF p r"
  have agree: "\<forall>p r. \<not> allowThunks p \<longrightarrow> ?ad p r = applyDirectives ?envF p r"
    by simp
  note A = schema_directives_never_thunked
    [where resolve = exResolve and env = ?envF and c = exConfig and ctx = Background
       and out = "[]", THEN conjunct1, THEN spec [where x = ?ad], THEN mp, OF agree]
  let ?doc = "exDocSchema exDefLazy"
  let ?env = "exBase ?doc exTablesRoots"
  let ?reg0 = "(exRegistry ?doc exTablesRoots)\<lparr>dependencyMap := []\<rparr>"
  let ?regA = "?reg0\<lparr>dependencyMap := IdentifyDependencies ?env ?reg0,
      internals := exTablesRoots\<rparr>"
  let ?cfg1 = "(initialSchemaConfig ?env ?regA)\<lparr>Query := Some (Object ''Foo'')\<rparr>"
  let ?target = "?cfg1\<lparr>Extensions := [Extension ''tag'']\<rparr>"
  let ?tag = "\<lparr>DirectiveName = ''tag'', Arguments = []\<rparr>"
  let ?lazy = "\<lparr>DirectiveName = ''lazy'', Arguments = []\<rparr>"
  let ?behavior = "(\<lambda>target args. RequiresThunk) :: Behavior"
  have applied: "applyDirectives ?env = specApplyDirectivesMethod exTable"
    by (simp add: exBase_def)
  have h1: "ConcatenateTypeDefs ?env exConfig = Inr ?doc"
    by (simp add: ex_defs)
  have h2: "newRegistry ?env Background (Resolvers exConfig) (SchemaDirectives exConfig)
      (ConfigExtensions exConfig) ?doc = Inr ?reg0"
    by (simp add: ex_defs)
  have h3: "schemaDefinitionOf (document ?reg0) = Some exDefLazy"
    by (simp add: ex_defs ex_data)
  have decls: "resolveDeclarations exResolve (document ?reg0) (internals ?reg0)
      = (None, exTablesRoots)"
    by (simp add: ex_defs ex_data)
  have ops: "addOperations ?env (OperationTypes exDefLazy) (initialSchemaConfig ?env ?regA)
      exTablesRoots = (None, ?cfg1, exTablesRoots)"
    by (simp add: ex_defs ex_data)
  have dirs: "NodeDirectives exDefLazy = [?tag] @ ?lazy # []"
    by (simp add: ex_data)
  have before: "specApplyDirectives exTable False [?tag] ?cfg1 = (None, ?target)"
    by (simp add: ex_defs ex_data)
  have found: "map_of exTable (DirectiveName ?lazy) = Some ?behavior"
    by (simp add: exTable_def)
  have thunk: "?behavior ?target (Arguments ?lazy) = RequiresThunk"
    by simp
  note P = schema_directives_never_thunked
    [where resolve = exResolve and out = "[]", THEN conjunct2, rule_format,
     OF conjI [OF applied conjI [OF h1 conjI [OF h2 conjI [OF h3 conjI [OF decls
        conjI [OF ops conjI [OF dirs conjI [OF before conjI [OF found thunk]]]]]]]]]]
  have name: "DirectiveName ?lazy = ''lazy''"
    by simp
  from A P [unfolded name] show ?thesis
    by (intro conjI)
qed

section \<open>What both paths hand to \<^verbatim>\<open>graphql.NewSchema\<close>, and what is printed\<close>

text \<open>
  C7, as the code has it. On the inferred path the configuration given to
  \<^verbatim>\<open>graphql.NewSchema\<close> has the registry's type array and directive array, as they are
  when \<^verbatim>\<open>NewSchema\<close> is called, in its fields \<open>Types\<close> and \<open>Directives\<close>. In
  \<^verbatim>\<open>buildSchemaFromAST\<close> the configuration starts with the two arrays of the registry as
  it is on entry; the loop over the operation types leaves both fields as they are,
  however it ends; \<^verbatim>\<open>NewSchema\<close> is given the configuration that the directive
  application returns; and that configuration has both arrays of the registry on entry
  when the directives of the schema definition leave the two fields alone. Neither
  path selects types by reachability.
\<close>

theorem schema_config_registry_arrays:
  "(ConcatenateTypeDefs env c = Inr doc \<and>
    newRegistry env ctx (Resolvers c) (SchemaDirectives c) (ConfigExtensions c) doc
      = Inr reg0 \<and>
    resolveDefinitions env (reg0\<lparr>dependencyMap := IdentifyDependencies env reg0\<rparr>)
      = (None, reg1) \<and>
    schema reg1 = None \<and>
    getObject env (internals reg1) DefaultRootQueryName = ((q, None), r1) \<and>
    getObject env r1 DefaultRootMutationName = ((m, em), r2) \<and>
    getObject env r2 DefaultRootSubscriptionName = ((s, es), r3) \<longrightarrow>
      Make env c ctx out =
        (case NewSchema env
                \<lparr>Query = q, Mutation = m, Subscription = s,
                 Types = typeArray env r3, Directives = directiveArray env r3,
                 Extensions = ConfigExtensions c\<rparr> of
          (sch, Some err) \<Rightarrow>
            ((sch, None), Println (fst (MarshalIndent env (dependencyMap reg1))) out)
        | (sch, None) \<Rightarrow> ((sch, None), out)))
   \<and> (addOperations env (OperationTypes d) (initialSchemaConfig env reg) (internals reg)
        = (res, cfg, tabs) \<longrightarrow>
        Types cfg = typeArray env (internals reg) \<and>
        Directives cfg = directiveArray env (internals reg))
   \<and> (addOperations env (OperationTypes d) (initialSchemaConfig env reg) (internals reg)
        = (None, cfg1, t1) \<and>
      applyDirectives env
        \<lparr>config = cfg1, directives = NodeDirectives d, node = d, allowThunks = t\<rparr> t1
        = (None, cfg2, t2) \<longrightarrow>
        buildSchemaFromAST env d t reg =
          (case NewSchema env cfg2 of
            (sch, Some err) \<Rightarrow> (Some err, reg\<lparr>internals := t2\<rparr>)
          | (sch, None) \<Rightarrow> (None, reg\<lparr>schema := Some sch, internals := t2\<rparr>)))
   \<and> (addOperations env (OperationTypes d) (initialSchemaConfig env reg) (internals reg)
        = (None, cfg1, t1) \<and>
      applyDirectives env
        \<lparr>config = cfg1, directives = NodeDirectives d, node = d, allowThunks = t\<rparr> t1
        = (None, cfg2, t2) \<and>
      Types cfg2 = Types cfg1 \<and> Directives cfg2 = Directives cfg1 \<longrightarrow>
        Types cfg2 = typeArray env (internals reg) \<and>
        Directives cfg2 = directiveArray env (internals reg))"
  (is "?inferred \<and> ?initial \<and> ?handed \<and> ?kept")
proof -
  have inferred: ?inferred
    by (intro impI, elim conjE, rule Make_inferred)
  have initial: ?initial
  proof
    assume "addOperations env (OperationTypes d) (initialSchemaConfig env reg) (internals reg)
        = (res, cfg, tabs)"
    from addOperations_keeps_arrays [OF this]
    show "Types cfg = typeArray env (internals reg) \<and>
        Directives cfg = directiveArray env (internals reg)"
      by simp
  qed
  have handed: ?handed
    by (simp add: buildSchemaFromAST_def split: prod.splits option.splits)
  have kept: ?kept
  proof (rule impI, elim conjE)
    assume ops: "addOperations env (OperationTypes d) (initialSchemaConfig env reg)
        (internals reg) = (None, cfg1, t1)"
      and same: "Types cfg2 = Types cfg1" "Directives cfg2 = Directives cfg1"
    from addOperations_keeps_arrays [OF ops] same
    show "Types cfg2 = typeArray env (internals reg) \<and>
        Directives cfg2 = directiveArray env (internals reg)"
      by simp
  qed
  from inferred initial handed kept show ?thesis
    by (intro conjI)
qed

theorem schema_config_registry_arrays_witness:
  "Make (exEnv exDocQuery exTablesQuery) exConfig Background [] =
     ((\<lparr>queryType = Some (Object ''Query''), mutationType = None, subscriptionType = None,
        typeMap = [ObjectType (Object ''Query'')], schemaDirectives = [],
        schemaExtensions = []\<rparr>, None), [])
   \<and> Types (fst (snd (addOperations (exEnv (exDocSchema exDefFoo) exTablesRoots)
        (OperationTypes exDefFoo)
        (initialSchemaConfig (exEnv (exDocSchema exDefFoo) exTablesRoots)
           (exRegistry (exDocSchema exDefFoo) exTablesRoots))
        (internals (exRegistry (exDocSchema exDefFoo) exTablesRoots)))))
     = [ObjectType (Object ''Query''), ObjectType (Object ''Foo''),
        ObjectType (Object ''Change''), ObjectType (Object ''Feed'')]
   \<and> buildSchemaFromAST (exEnv (exDocSchema exDefFoo) exTablesRoots) exDefFoo False
       (exRegistry (exDocSchema exDefFoo) exTablesRoots)
     = (None, (exRegistry (exDocSchema exDefFoo) exTablesRoots)
        \<lparr>schema := Some \<lparr>queryType = Some (Object ''Foo''), mutationType = None,
           subscriptionType = None,
           typeMap = [ObjectType (Object ''Query''), ObjectType (Object ''Foo''),
                      ObjectType (Object ''Change''), ObjectType (Object ''Feed'')],
           schemaDirectives = [Directive ''tag''],
           schemaExtensions = [Extension ''tag'']\<rparr>\<rparr>)"
proof -
  let ?env = "exEnv exDocQuery exTablesQuery"
  let ?reg = "exRegistry exDocQuery exTablesQuery"
  have h3: "resolveDefinitions ?env ((?reg\<lparr>dependencyMap := []\<rparr>)\<lparr>dependencyMap :=
      IdentifyDependencies ?env (?reg\<lparr>dependencyMap := []\<rparr>)\<rparr>) = (None, ?reg)"
    by (rule ex_resolve_inferred) (simp_all add: ex_defs ex_data)
  have h4: "schema ?reg = None"
    by (simp add: ex_defs)
  have h5: "getObject ?env (internals ?reg) DefaultRootQueryName =
      ((Some (Object ''Query''), None), exTablesQuery)"
    by (simp add: ex_defs ex_data)
  have h6: "getObject ?env exTablesQuery DefaultRootMutationName =
      ((None, Some (Error ''no definition found for type Mutation'')), exTablesQuery)"
    by (simp add: ex_defs ex_data)
  have h7: "getObject ?env exTablesQuery DefaultRootSubscriptionName =
      ((None, Some (Error ''no definition found for type Subscription'')), exTablesQuery)"
    by (simp add: ex_defs ex_data)
  have h8: "NewSchema ?env
      \<lparr>Query = Some (Object ''Query''), Mutation = None, Subscription = None,
       Types = typeArray ?env exTablesQuery, Directives = directiveArray ?env exTablesQuery,
       Extensions = ConfigExtensions exConfig\<rparr> =
      (\<lparr>queryType = Some (Object ''Query''), mutationType = None, subscriptionType = None,
        typeMap = [ObjectType (Object ''Query'')], schemaDirectives = [],
        schemaExtensions = []\<rparr>, None)"
    by (simp add: ex_defs ex_data)
  note I = schema_config_registry_arrays
    [where ctx = Background and out = "[]", THEN conjunct1, rule_format,
     OF conjI [OF ex_ConcatenateTypeDefs conjI [OF ex_newRegistry conjI [OF h3
        conjI [OF h4 conjI [OF h5 conjI [OF h6 h7]]]]]]]
  have c1: "Make ?env exConfig Background [] =
     ((\<lparr>queryType = Some (Object ''Query''), mutationType = None, subscriptionType = None,
        typeMap = [ObjectType (Object ''Query'')], schemaDirectives = [],
        schemaExtensions = []\<rparr>, None), [])"
    using I by (simp only: h8 prod.case option.case)
  let ?envE = "exEnv (exDocSchema exDefFoo) exTablesRoots"
  let ?regE = "exRegistry (exDocSchema exDefFoo) exTablesRoots"
  let ?cfg1 = "(initialSchemaConfig ?envE ?regE)\<lparr>Query := Some (Object ''Foo'')\<rparr>"
  let ?cfg2 = "?cfg1\<lparr>Extensions := [Extension ''tag'']\<rparr>"
  have ops: "addOperations ?envE (OperationTypes exDefFoo) (initialSchemaConfig ?envE ?regE)
      (internals ?regE) = (None, ?cfg1, exTablesRoots)"
    by (simp add: ex_defs ex_data)
  have dirs: "applyDirectives ?envE
      \<lparr>config = ?cfg1, directives = NodeDirectives exDefFoo, node = exDefFoo,
       allowThunks = False\<rparr> exTablesRoots = (None, ?cfg2, exTablesRoots)"
    by (simp add: ex_defs ex_data)
  have same: "Types ?cfg2 = Types ?cfg1 \<and> Directives ?cfg2 = Directives ?cfg1"
    by simp
  have built: "NewSchema ?envE ?cfg2 =
      (\<lparr>queryType = Some (Object ''Foo''), mutationType = None, subscriptionType = None,
        typeMap = [ObjectType (Object ''Query''), ObjectType (Object ''Foo''),
                   ObjectType (Object ''Change''), ObjectType (Object ''Feed'')],
        schemaDirectives = [Directive ''tag''],
        schemaExtensions = [Extension ''tag'']\<rparr>, None)"
    by (simp add: ex_defs ex_data)
  have arrays: "typeArray ?envE (internals ?regE)
      = [ObjectType (Object ''Query''), ObjectType (Object ''Foo''),
         ObjectType (Object ''Change''), ObjectType (Object ''Feed'')]"
    by (simp add: ex_defs ex_data)
  note T = schema_config_registry_arrays [where env = ?envE and reg = ?regE and d = exDefFoo]
  note A = T [THEN conjunct2, THEN conjunct1, THEN mp, OF ops, THEN conjunct1]
  have c2: "Types (fst (snd (addOperations ?envE (OperationTypes exDefFoo)
        (initialSchemaConfig ?envE ?regE) (internals ?regE))))
     = [ObjectType (Object ''Query''), ObjectType (Object ''Foo''),
        ObjectType (Object ''Change''), ObjectType (Object ''Feed'')]"
    unfolding ops fst_conv snd_conv using A by (simp only: arrays)
  note H = T [THEN conjunct2, THEN conjunct2, THEN conjunct1, THEN mp,
      OF conjI [OF ops dirs]]
  note K = T [THEN conjunct2, THEN conjunct2, THEN conjunct2, THEN mp,
      OF conjI [OF ops conjI [OF dirs same]], THEN conjunct1]
  have "Types ?cfg2 = [ObjectType (Object ''Query''), ObjectType (Object ''Foo''),
        ObjectType (Object ''Change''), ObjectType (Object ''Feed'')]"
    using K by (simp only: arrays)
  have c3: "buildSchemaFromAST ?envE exDefFoo False ?regE
     = (None, ?regE
        \<lparr>schema := Some \<lparr>queryType = Some (Object ''Foo''), mutationType = None,
           subscriptionType = None,
           typeMap = [ObjectType (Object ''Query''), ObjectType (Object ''Foo''),
                      ObjectType (Object ''Change''), ObjectType (Object ''Feed'')],
           schemaDirectives = [Directive ''tag''],
           schemaExtensions = [Extension ''tag'']\<rparr>\<rparr>)"
  proof -
    have "buildSchemaFromAST ?envE exDefFoo False ?regE
     = (None, ?regE
        \<lparr>schema := Some \<lparr>queryType = Some (Object ''Foo''), mutationType = None,
           subscriptionType = None,
           typeMap = [ObjectType (Object ''Query''), ObjectType (Object ''Foo''),
                      ObjectType (Object ''Change''), ObjectType (Object ''Feed'')],
           schemaDirectives = [Directive ''tag''],
           schemaExtensions = [Extension ''tag'']\<rparr>, internals := exTablesRoots\<rparr>)"
      using H by (simp only: built prod.case option.case)
    then show ?thesis
      by (simp add: exRegistry_def)
  qed
  from c1 c2 c3 show ?thesis
    by (intro conjI)
qed

text \<open>
  C7 as stated fails on the path of an explicit schema declaration, in two ways. A
  directive of the schema definition may replace the field: with a behaviour \<open>strip\<close>
  that empties the type array of its target, the schema is built from no types while
  the registry holds four. And the arrays are read on entry: when a root lookup
  constructs the type \<open>Foo\<close> and adds it to the registry, the schema is built from the
  type array without \<open>Foo\<close>, while the registry's type array has it by the time
  \<^verbatim>\<open>graphql.NewSchema\<close> is called.
\<close>

theorem explicit_config_arrays_replaced_or_stale:
  "typeArray ((exBase (exDocSchema exDefStrip) exTablesRoots)
        \<lparr>applyDirectives := specApplyDirectivesMethod exTableRewriting\<rparr>) exTablesRoots
     = [ObjectType (Object ''Query''), ObjectType (Object ''Foo''),
        ObjectType (Object ''Change''), ObjectType (Object ''Feed'')]
   \<and> buildSchemaFromAST ((exBase (exDocSchema exDefStrip) exTablesRoots)
        \<lparr>applyDirectives := specApplyDirectivesMethod exTableRewriting\<rparr>) exDefStrip False
       (exRegistry (exDocSchema exDefStrip) exTablesRoots)
     = (None, (exRegistry (exDocSchema exDefStrip) exTablesRoots)
        \<lparr>schema := Some \<lparr>queryType = Some (Object ''Foo''), mutationType = None,
           subscriptionType = None, typeMap = [],
           schemaDirectives = [Directive ''tag''], schemaExtensions = []\<rparr>\<rparr>)
   \<and> buildSchemaFromAST ((exBase (exDocSchema exDefPlain) exTablesQuery)
        \<lparr>getObject := exGetObjectLazy\<rparr>) exDefPlain False
       (exRegistry (exDocSchema exDefPlain) exTablesQuery)
     = (None, (exRegistry (exDocSchema exDefPlain) exTablesQuery)
        \<lparr>schema := Some \<lparr>queryType = Some (Object ''Foo''), mutationType = None,
           subscriptionType = None, typeMap = [ObjectType (Object ''Query'')],
           schemaDirectives = [], schemaExtensions = []\<rparr>,
         internals := \<lparr>typeTable = [(''Query'', ObjectType (Object ''Query'')),
                                      (''Foo'', ObjectType (Object ''Foo''))],
                        directiveTable = []\<rparr>\<rparr>)
   \<and> typeArray ((exBase (exDocSchema exDefPlain) exTablesQuery)
        \<lparr>getObject := exGetObjectLazy\<rparr>)
       \<lparr>typeTable = [(''Query'', ObjectType (Object ''Query'')),
                     (''Foo'', ObjectType (Object ''Foo''))],
        directiveTable = []\<rparr>
     = [ObjectType (Object ''Query''), ObjectType (Object ''Foo'')]"
  by (simp add: ex_defs ex_data ex_more)

lemma Make_dumped_only_on_inferred_failure:
  assumes d: "snd (Make env c ctx out) \<noteq> out"
  shows "\<exists>doc reg0 reg1 q r1 m em r2 s es r3 sch err.
        ConcatenateTypeDefs env c = Inr doc \<and>
        newRegistry env ctx (Resolvers c) (SchemaDirectives c) (ConfigExtensions c) doc
          = Inr reg0 \<and>
        resolveDefinitions env (reg0\<lparr>dependencyMap := IdentifyDependencies env reg0\<rparr>)
          = (None, reg1) \<and>
        schema reg1 = None \<and>
        getObject env (internals reg1) DefaultRootQueryName = ((q, None), r1) \<and>
        getObject env r1 DefaultRootMutationName = ((m, em), r2) \<and>
        getObject env r2 DefaultRootSubscriptionName = ((s, es), r3) \<and>
        NewSchema env
          \<lparr>Query = q, Mutation = m, Subscription = s,
           Types = typeArray env r3, Directives = directiveArray env r3,
           Extensions = ConfigExtensions c\<rparr> = (sch, Some err)"
proof (cases "ConcatenateTypeDefs env c")
  case (Inl e)
  with d show ?thesis by (simp add: Make_def)
next
  case doc: (Inr doc)
  show ?thesis
  proof (cases "newRegistry env ctx (Resolvers c) (SchemaDirectives c) (ConfigExtensions c) doc")
    case (Inl e)
    with d doc show ?thesis by (simp add: Make_def)
  next
    case reg0: (Inr reg0)
    obtain res reg1 where
      rd: "resolveDefinitions env (reg0\<lparr>dependencyMap := IdentifyDependencies env reg0\<rparr>)
        = (res, reg1)"
      by (cases "resolveDefinitions env
            (reg0\<lparr>dependencyMap := IdentifyDependencies env reg0\<rparr>)")
    obtain q eq r1 where lq:
      "getObject env (internals reg1) DefaultRootQueryName = ((q, eq), r1)"
      by (metis surj_pair)
    obtain m em r2 where lm: "getObject env r1 DefaultRootMutationName = ((m, em), r2)"
      by (metis surj_pair)
    obtain s es r3 where ls: "getObject env r2 DefaultRootSubscriptionName = ((s, es), r3)"
      by (metis surj_pair)
    obtain sch err where ns: "NewSchema env
        \<lparr>Query = q, Mutation = m, Subscription = s,
         Types = typeArray env r3, Directives = directiveArray env r3,
         Extensions = ConfigExtensions c\<rparr> = (sch, err)"
      by (metis surj_pair)
    from d doc reg0 rd have res: "res = None"
      by (cases res) (simp_all add: Make_def)
    from d doc reg0 rd res have sc: "schema reg1 = None"
      by (cases "schema reg1") (simp_all add: Make_def)
    from d doc reg0 rd res sc lq have eq: "eq = None"
      by (cases eq) (simp_all add: Make_def)
    from d doc reg0 rd res sc lq eq lm ls ns obtain e where err: "err = Some e"
      by (cases err) (simp_all add: Make_def)
    from doc reg0 rd res sc lq eq lm ls ns err show ?thesis
      by blast
  qed
qed

text \<open>
  C4, as the code has it. When \<^verbatim>\<open>Make\<close> reaches \<^verbatim>\<open>graphql.NewSchema\<close> with the inferred
  roots and \<^verbatim>\<open>NewSchema\<close> returns an error, \<^verbatim>\<open>Make\<close> prints the serialized dependency map of
  the registry and a line feed, and returns the schema value that came with the error.
  \<^verbatim>\<open>Make\<close> prints on no other occasion: whenever its output differs from what it was,
  the run is such a one. In particular, when \<^verbatim>\<open>NewSchema\<close> accepts the inferred
  configuration, \<^verbatim>\<open>Make\<close> returns its schema without an error and prints nothing; when
  \<^verbatim>\<open>resolveDefinitions\<close> has stored a schema, \<^verbatim>\<open>Make\<close> returns it and prints nothing; when
  \<^verbatim>\<open>resolveDefinitions\<close> fails, \<^verbatim>\<open>Make\<close> returns its error and prints nothing; and a failure
  of \<^verbatim>\<open>NewSchema\<close> inside \<^verbatim>\<open>buildSchemaFromAST\<close> is such an error, which that function
  returns without storing a schema.
\<close>

theorem dump_on_inferred_NewSchema_failure_only:
  "(\<forall>doc reg0 reg1 q r1 m em r2 s es r3 sch err.
      ConcatenateTypeDefs env c = Inr doc \<and>
      newRegistry env ctx (Resolvers c) (SchemaDirectives c) (ConfigExtensions c) doc
        = Inr reg0 \<and>
      resolveDefinitions env (reg0\<lparr>dependencyMap := IdentifyDependencies env reg0\<rparr>)
        = (None, reg1) \<and>
      schema reg1 = None \<and>
      getObject env (internals reg1) DefaultRootQueryName = ((q, None), r1) \<and>
      getObject env r1 DefaultRootMutationName = ((m, em), r2) \<and>
      getObject env r2 DefaultRootSubscriptionName = ((s, es), r3) \<and>
      NewSchema env
        \<lparr>Query = q, Mutation = m, Subscription = s,
         Types = typeArray env r3, Directives = directiveArray env r3,
         Extensions = ConfigExtensions c\<rparr> = (sch, Some err) \<longrightarrow>
        Make env c ctx out =
          ((sch, None), Println (fst (MarshalIndent env (dependencyMap reg1))) out) \<and>
        snd (Make env c ctx out) \<noteq> out)
   \<and> (snd (Make env c ctx out) \<noteq> out \<longrightarrow>
      (\<exists>doc reg0 reg1 q r1 m em r2 s es r3 sch err.
        ConcatenateTypeDefs env c = Inr doc \<and>
        newRegistry env ctx (Resolvers c) (SchemaDirectives c) (ConfigExtensions c) doc
          = Inr reg0 \<and>
        resolveDefinitions env (reg0\<lparr>dependencyMap := IdentifyDependencies env reg0\<rparr>)
          = (None, reg1) \<and>
        schema reg1 = None \<and>
        getObject env (internals reg1) DefaultRootQueryName = ((q, None), r1) \<and>
        getObject env r1 DefaultRootMutationName = ((m, em), r2) \<and>
        getObject env r2 DefaultRootSubscriptionName = ((s, es), r3) \<and>
        NewSchema env
          \<lparr>Query = q, Mutation = m, Subscription = s,
           Types = typeArray env r3, Directives = directiveArray env r3,
           Extensions = ConfigExtensions c\<rparr> = (sch, Some err)))
   \<and> (\<forall>doc reg0 reg1 q r1 m em r2 s es r3 sch.
      ConcatenateTypeDefs env c = Inr doc \<and>
      newRegistry env ctx (Resolvers c) (SchemaDirectives c) (ConfigExtensions c) doc
        = Inr reg0 \<and>
      resolveDefinitions env (reg0\<lparr>dependencyMap := IdentifyDependencies env reg0\<rparr>)
        = (None, reg1) \<and>
      schema reg1 = None \<and>
      getObject env (internals reg1) DefaultRootQueryName = ((q, None), r1) \<and>
      getObject env r1 DefaultRootMutationName = ((m, em), r2) \<and>
      getObject env r2 DefaultRootSubscriptionName = ((s, es), r3) \<and>
      NewSchema env
        \<lparr>Query = q, Mutation = m, Subscription = s,
         Types = typeArray env r3, Directives = directiveArray env r3,
         Extensions = ConfigExtensions c\<rparr> = (sch, None) \<longrightarrow>
        Make env c ctx out = ((sch, None), out))
   \<and> (\<forall>doc reg0 reg1 s.
      ConcatenateTypeDefs env c = Inr doc \<and>
      newRegistry env ctx (Resolvers c) (SchemaDirectives c) (ConfigExtensions c) doc
        = Inr reg0 \<and>
      resolveDefinitions env (reg0\<lparr>dependencyMap := IdentifyDependencies env reg0\<rparr>)
        = (None, reg1) \<and>
      schema reg1 = Some s \<longrightarrow>
        Make env c ctx out = ((s, None), out))
   \<and> (\<forall>doc reg0 reg1 e.
      ConcatenateTypeDefs env c = Inr doc \<and>
      newRegistry env ctx (Resolvers c) (SchemaDirectives c) (ConfigExtensions c) doc
        = Inr reg0 \<and>
      resolveDefinitions env (reg0\<lparr>dependencyMap := IdentifyDependencies env reg0\<rparr>)
        = (Some e, reg1) \<longrightarrow>
        Make env c ctx out = ((emptySchema, Some e), out))
   \<and> (\<forall>d t reg cfg1 t1 cfg2 t2 sch err.
      addOperations env (OperationTypes d) (initialSchemaConfig env reg) (internals reg)
        = (None, cfg1, t1) \<and>
      applyDirectives env
        \<lparr>config = cfg1, directives = NodeDirectives d, node = d, allowThunks = t\<rparr> t1
        = (None, cfg2, t2) \<and>
      NewSchema env cfg2 = (sch, Some err) \<longrightarrow>
        buildSchemaFromAST env d t reg = (Some err, reg\<lparr>internals := t2\<rparr>))"
  (is "?dumps \<and> ?only \<and> ?accepted \<and> ?stored \<and> ?unresolved \<and> ?explicit")
proof -
  have dumps: ?dumps
  proof (intro allI, rule impI, elim conjE)
    fix doc reg0 reg1 q r1 m em r2 s es r3 sch err
    assume h: "ConcatenateTypeDefs env c = Inr doc"
      "newRegistry env ctx (Resolvers c) (SchemaDirectives c) (ConfigExtensions c) doc
        = Inr reg0"
      "resolveDefinitions env (reg0\<lparr>dependencyMap := IdentifyDependencies env reg0\<rparr>)
        = (None, reg1)"
      "schema reg1 = None"
      "getObject env (internals reg1) DefaultRootQueryName = ((q, None), r1)"
      "getObject env r1 DefaultRootMutationName = ((m, em), r2)"
      "getObject env r2 DefaultRootSubscriptionName = ((s, es), r3)"
      and failed: "NewSchema env
        \<lparr>Query = q, Mutation = m, Subscription = s,
         Types = typeArray env r3, Directives = directiveArray env r3,
         Extensions = ConfigExtensions c\<rparr> = (sch, Some err)"
    from Make_inferred [OF h] failed
    show "Make env c ctx out =
          ((sch, None), Println (fst (MarshalIndent env (dependencyMap reg1))) out) \<and>
        snd (Make env c ctx out) \<noteq> out"
      by (simp add: Println_def)
  qed
  have only: ?only
    by (rule impI) (rule Make_dumped_only_on_inferred_failure)
  have accepted: ?accepted
  proof (intro allI, rule impI, elim conjE)
    fix doc reg0 reg1 q r1 m em r2 s es r3 sch
    assume h: "ConcatenateTypeDefs env c = Inr doc"
      "newRegistry env ctx (Resolvers c) (SchemaDirectives c) (ConfigExtensions c) doc
        = Inr reg0"
      "resolveDefinitions env (reg0\<lparr>dependencyMap := IdentifyDependencies env reg0\<rparr>)
        = (None, reg1)"
      "schema reg1 = None"
      "getObject env (internals reg1) DefaultRootQueryName = ((q, None), r1)"
      "getObject env r1 DefaultRootMutationName = ((m, em), r2)"
      "getObject env r2 DefaultRootSubscriptionName = ((s, es), r3)"
      and ok: "NewSchema env
        \<lparr>Query = q, Mutation = m, Subscription = s,
         Types = typeArray env r3, Directives = directiveArray env r3,
         Extensions = ConfigExtensions c\<rparr> = (sch, None)"
    from Make_inferred [OF h] ok
    show "Make env c ctx out = ((sch, None), out)"
      by simp
  qed
  have stored: ?stored
    by (intro allI, rule impI, elim conjE) (rule Make_explicit)
  have unresolved: ?unresolved
    by (intro allI, rule impI, elim conjE) (rule Make_resolve_fails)
  have explicit: ?explicit
    by (simp add: buildSchemaFromAST_def)
  from dumps only accepted stored unresolved explicit show ?thesis
    by (intro conjI)
qed

theorem dump_on_inferred_NewSchema_failure_only_witness:
  "Make (exEnv exDocQuery exTablesClash) exConfig Background [] =
     ((\<lparr>queryType = Some (Object ''Query''), mutationType = None, subscriptionType = None,
        typeMap = [], schemaDirectives = [], schemaExtensions = []\<rparr>, None),
      ''Query'' @ [CHR 0x0A])
   \<and> snd (NewSchema (exEnv exDocQuery exTablesClash)
      \<lparr>Query = Some (Object ''Query''), Mutation = None, Subscription = None,
       Types = typeArray (exEnv exDocQuery exTablesClash) exTablesClash,
       Directives = directiveArray (exEnv exDocQuery exTablesClash) exTablesClash,
       Extensions = ConfigExtensions exConfig\<rparr>)
     = Some (Error ''Schema must contain unique named types'')
   \<and> Make (exEnv exDocQuery exTablesQuery) exConfig Background [] =
     ((\<lparr>queryType = Some (Object ''Query''), mutationType = None, subscriptionType = None,
        typeMap = [ObjectType (Object ''Query'')], schemaDirectives = [],
        schemaExtensions = []\<rparr>, None), [])
   \<and> Make (exEnv (exDocSchema exDefFoo) exTablesRoots) exConfig Background [] =
     ((\<lparr>queryType = Some (Object ''Foo''), mutationType = None, subscriptionType = None,
        typeMap = [ObjectType (Object ''Query''), ObjectType (Object ''Foo''),
                   ObjectType (Object ''Change''), ObjectType (Object ''Feed'')],
        schemaDirectives = [Directive ''tag''],
        schemaExtensions = [Extension ''tag'']\<rparr>, None), [])
   \<and> Make (exEnv (exDocSchema exDefFoo) exTablesClash) exConfig Background [] =
     ((emptySchema, Some (Error ''Schema must contain unique named types'')), [])
   \<and> buildSchemaFromAST (exEnv (exDocSchema exDefFoo) exTablesClash) exDefFoo False
       (exRegistry (exDocSchema exDefFoo) exTablesClash)
     = (Some (Error ''Schema must contain unique named types''),
        exRegistry (exDocSchema exDefFoo) exTablesClash)"
proof -
  let ?envC = "exEnv exDocQuery exTablesClash"
  let ?regC = "exRegistry exDocQuery exTablesClash"
  have c3: "resolveDefinitions ?envC ((?regC\<lparr>dependencyMap := []\<rparr>)\<lparr>dependencyMap :=
      IdentifyDependencies ?envC (?regC\<lparr>dependencyMap := []\<rparr>)\<rparr>) = (None, ?regC)"
    by (rule ex_resolve_inferred) (simp_all add: ex_defs ex_data)
  have c4: "schema ?regC = None"
    by (simp add: ex_defs)
  have c5: "getObject ?envC (internals ?regC) DefaultRootQueryName =
      ((Some (Object ''Query''), None), exTablesClash)"
    by (simp add: ex_defs ex_data)
  have c6: "getObject ?envC exTablesClash DefaultRootMutationName =
      ((None, Some (Error ''no definition found for type Mutation'')), exTablesClash)"
    by (simp add: ex_defs ex_data)
  have c7: "getObject ?envC exTablesClash DefaultRootSubscriptionName =
      ((None, Some (Error ''no definition found for type Subscription'')), exTablesClash)"
    by (simp add: ex_defs ex_data)
  have c8: "NewSchema ?envC
      \<lparr>Query = Some (Object ''Query''), Mutation = None, Subscription = None,
       Types = typeArray ?envC exTablesClash, Directives = directiveArray ?envC exTablesClash,
       Extensions = ConfigExtensions exConfig\<rparr> =
      (\<lparr>queryType = Some (Object ''Query''), mutationType = None, subscriptionType = None,
        typeMap = [], schemaDirectives = [], schemaExtensions = []\<rparr>,
       Some (Error ''Schema must contain unique named types''))"
    by (simp add: ex_defs ex_data)
  note T = dump_on_inferred_NewSchema_failure_only [where ctx = Background and out = "[]"]
  note D = T [where env = ?envC and c = exConfig, THEN conjunct1, rule_format,
      OF conjI [OF ex_ConcatenateTypeDefs conjI [OF ex_newRegistry conjI [OF c3
        conjI [OF c4 conjI [OF c5 conjI [OF c6 conjI [OF c7 c8]]]]]]]]
  have printed: "Println (fst (MarshalIndent ?envC (dependencyMap ?regC))) [] = ''Query'' @ [CHR 0x0A]"
    by (simp add: ex_defs ex_data)
  have w1: "Make ?envC exConfig Background [] =
     ((\<lparr>queryType = Some (Object ''Query''), mutationType = None, subscriptionType = None,
        typeMap = [], schemaDirectives = [], schemaExtensions = []\<rparr>, None),
      ''Query'' @ [CHR 0x0A])"
    using D [THEN conjunct1] by (simp only: printed)
  from T [where env = ?envC and c = exConfig, THEN conjunct2, THEN conjunct1, THEN mp,
      OF D [THEN conjunct2]]
  obtain q m s r3 sch err where "NewSchema ?envC
      \<lparr>Query = q, Mutation = m, Subscription = s,
       Types = typeArray ?envC r3, Directives = directiveArray ?envC r3,
       Extensions = ConfigExtensions exConfig\<rparr> = (sch, Some err)"
    by blast
  have w2: "snd (NewSchema ?envC
      \<lparr>Query = Some (Object ''Query''), Mutation = None, Subscription = None,
       Types = typeArray ?envC exTablesClash, Directives = directiveArray ?envC exTablesClash,
       Extensions = ConfigExtensions exConfig\<rparr>)
     = Some (Error ''Schema must contain unique named types'')"
    by (simp only: c8 snd_conv)
  let ?envQ = "exEnv exDocQuery exTablesQuery"
  let ?regQ = "exRegistry exDocQuery exTablesQuery"
  have q3: "resolveDefinitions ?envQ ((?regQ\<lparr>dependencyMap := []\<rparr>)\<lparr>dependencyMap :=
      IdentifyDependencies ?envQ (?regQ\<lparr>dependencyMap := []\<rparr>)\<rparr>) = (None, ?regQ)"
    by (rule ex_resolve_inferred) (simp_all add: ex_defs ex_data)
  have q4: "schema ?regQ = None"
    by (simp add: ex_defs)
  have q5: "getObject ?envQ (internals ?regQ) DefaultRootQueryName =
      ((Some (Object ''Query''), None), exTablesQuery)"
    by (simp add: ex_defs ex_data)
  have q6: "getObject ?envQ exTablesQuery DefaultRootMutationName =
      ((None, Some (Error ''no definition found for type Mutation'')), exTablesQuery)"
    by (simp add: ex_defs ex_data)
  have q7: "getObject ?envQ exTablesQuery DefaultRootSubscriptionName =
      ((None, Some (Error ''no definition found for type Subscription'')), exTablesQuery)"
    by (simp add: ex_defs ex_data)
  have q8: "NewSchema ?envQ
      \<lparr>Query = Some (Object ''Query''), Mutation = None, Subscription = None,
       Types = typeArray ?envQ exTablesQuery, Directives = directiveArray ?envQ exTablesQuery,
       Extensions = ConfigExtensions exConfig\<rparr> =
      (\<lparr>queryType = Some (Object ''Query''), mutationType = None, subscriptionType = None,
        typeMap = [ObjectType (Object ''Query'')], schemaDirectives = [],
        schemaExtensions = []\<rparr>, None)"
    by (simp add: ex_defs ex_data)
  note w3 = T [where env = ?envQ and c = exConfig, THEN conjunct2, THEN conjunct2,
      THEN conjunct1, rule_format,
      OF conjI [OF ex_ConcatenateTypeDefs conjI [OF ex_newRegistry conjI [OF q3
        conjI [OF q4 conjI [OF q5 conjI [OF q6 conjI [OF q7 q8]]]]]]]]
  let ?envE = "exEnv (exDocSchema exDefFoo) exTablesRoots"
  let ?regE = "exRegistry (exDocSchema exDefFoo) exTablesRoots"
  let ?built = "\<lparr>queryType = Some (Object ''Foo''), mutationType = None,
      subscriptionType = None,
      typeMap = [ObjectType (Object ''Query''), ObjectType (Object ''Foo''),
                 ObjectType (Object ''Change''), ObjectType (Object ''Feed'')],
      schemaDirectives = [Directive ''tag''],
      schemaExtensions = [Extension ''tag'']\<rparr>"
  have "resolveDefinitions ?envE ?regE = (None, ?regE\<lparr>schema := Some ?built\<rparr>)"
    by (simp add: ex_defs ex_data)
  then have e3: "resolveDefinitions ?envE ((?regE\<lparr>dependencyMap := []\<rparr>)\<lparr>dependencyMap :=
      IdentifyDependencies ?envE (?regE\<lparr>dependencyMap := []\<rparr>)\<rparr>)
      = (None, ?regE\<lparr>schema := Some ?built\<rparr>)"
    unfolding ex_IdentifyDependencies .
  have e4: "schema (?regE\<lparr>schema := Some ?built\<rparr>) = Some ?built"
    by simp
  note w4 = T [where env = ?envE and c = exConfig, THEN conjunct2, THEN conjunct2,
      THEN conjunct2, THEN conjunct1, rule_format,
      OF conjI [OF ex_ConcatenateTypeDefs conjI [OF ex_newRegistry conjI [OF e3 e4]]]]
  let ?envX = "exEnv (exDocSchema exDefFoo) exTablesClash"
  let ?regX = "exRegistry (exDocSchema exDefFoo) exTablesClash"
  have "resolveDefinitions ?envX ?regX
     = (Some (Error ''Schema must contain unique named types''), ?regX)"
    by (simp add: ex_defs ex_data)
  then have x3: "resolveDefinitions ?envX ((?regX\<lparr>dependencyMap := []\<rparr>)\<lparr>dependencyMap :=
      IdentifyDependencies ?envX (?regX\<lparr>dependencyMap := []\<rparr>)\<rparr>)
     = (Some (Error ''Schema must contain unique named types''), ?regX)"
    unfolding ex_IdentifyDependencies .
  note w5 = T [where env = ?envX and c = exConfig, THEN conjunct2, THEN conjunct2,
      THEN conjunct2, THEN conjunct2, THEN conjunct1, rule_format,
      OF conjI [OF ex_ConcatenateTypeDefs conjI [OF ex_newRegistry x3]]]
  let ?cfg1 = "(initialSchemaConfig ?envX ?regX)\<lparr>Query := Some (Object ''Foo'')\<rparr>"
  let ?cfg2 = "?cfg1\<lparr>Extensions := [Extension ''tag'']\<rparr>"
  have ops: "addOperations ?envX (OperationTypes exDefFoo) (initialSchemaConfig ?envX ?regX)
      (internals ?regX) = (None, ?cfg1, exTablesClash)"
    by (simp add: ex_defs ex_data)
  have dirs: "applyDirectives ?envX
      \<lparr>config = ?cfg1, directives = NodeDirectives exDefFoo, node = exDefFoo,
       allowThunks = False\<rparr> exTablesClash = (None, ?cfg2, exTablesClash)"
    by (simp add: ex_defs ex_data)
  have rejected: "NewSchema ?envX ?cfg2 =
      (\<lparr>queryType = Some (Object ''Foo''), mutationType = None, subscriptionType = None,
        typeMap = [], schemaDirectives = [], schemaExtensions = []\<rparr>,
       Some (Error ''Schema must contain unique named types''))"
    by (simp add: ex_defs ex_data)
  have unchanged: "?regX\<lparr>internals := exTablesClash\<rparr> = ?regX"
    by (simp add: ex_defs)
  note w6 = T [where env = ?envX, THEN conjunct2, THEN conjunct2,
      THEN conjunct2, THEN conjunct2, THEN conjunct2, rule_format,
      OF conjI [OF ops conjI [OF dirs rejected]], unfolded unchanged]
  from w1 w2 w3 w4 w5 w6 show ?thesis
    by (intro conjI)
qed

text \<open>
  C4 as stated fails on the path of an explicit schema declaration: in the example,
  \<^verbatim>\<open>graphql.NewSchema\<close> rejects the configuration built from \<^verbatim>\<open>schema { query: Foo }\<close>,
  \<^verbatim>\<open>buildSchemaFromAST\<close> returns the error, \<^verbatim>\<open>Make\<close> returns it, and nothing is printed.
\<close>

theorem dump_missing_on_explicit_NewSchema_failure:
  "snd (NewSchema (exEnv (exDocSchema exDefFoo) exTablesClash)
      \<lparr>Query = Some (Object ''Foo''), Mutation = None, Subscription = None,
       Types = typeArray (exEnv (exDocSchema exDefFoo) exTablesClash) exTablesClash,
       Directives = directiveArray (exEnv (exDocSchema exDefFoo) exTablesClash) exTablesClash,
       Extensions = [Extension ''tag'']\<rparr>)
     = Some (Error ''Schema must contain unique named types'')
   \<and> buildSchemaFromAST (exEnv (exDocSchema exDefFoo) exTablesClash) exDefFoo False
       (exRegistry (exDocSchema exDefFoo) exTablesClash)
     = (Some (Error ''Schema must contain unique named types''),
        exRegistry (exDocSchema exDefFoo) exTablesClash)
   \<and> Make (exEnv (exDocSchema exDefFoo) exTablesClash) exConfig Background []
     = ((emptySchema, Some (Error ''Schema must contain unique named types'')), [])"
proof -
  let ?env = "exEnv (exDocSchema exDefFoo) exTablesClash"
  let ?reg = "exRegistry (exDocSchema exDefFoo) exTablesClash"
  have c1: "snd (NewSchema ?env
      \<lparr>Query = Some (Object ''Foo''), Mutation = None, Subscription = None,
       Types = typeArray ?env exTablesClash,
       Directives = directiveArray ?env exTablesClash,
       Extensions = [Extension ''tag'']\<rparr>)
     = Some (Error ''Schema must contain unique named types'')"
    by (simp add: ex_defs ex_data)
  have c2: "buildSchemaFromAST ?env exDefFoo False ?reg
     = (Some (Error ''Schema must contain unique named types''), ?reg)"
    by (simp add: ex_defs ex_data)
  have "resolveDefinitions ?env ?reg
     = (Some (Error ''Schema must contain unique named types''), ?reg)"
    by (simp add: ex_defs ex_data)
  then have h3: "resolveDefinitions ?env ((?reg\<lparr>dependencyMap := []\<rparr>)\<lparr>dependencyMap :=
      IdentifyDependencies ?env (?reg\<lparr>dependencyMap := []\<rparr>)\<rparr>)
     = (Some (Error ''Schema must contain unique named types''), ?reg)"
    unfolding ex_IdentifyDependencies .
  have c3: "Make ?env exConfig Background []
     = ((emptySchema, Some (Error ''Schema must contain unique named types'')), [])"
    by (rule Make_resolve_fails [OF ex_ConcatenateTypeDefs ex_newRegistry h3])
  from c1 c2 c3 show ?thesis
    by (intro conjI)
qed

section \<open>The shorthands\<close>

text \<open>
  C9. \<^verbatim>\<open>MakeExecutableSchema\<close> gives the result of \<^verbatim>\<open>MakeExecutableSchemaWithContext\<close>
  called with the background context, and each gives the result of \<^verbatim>\<open>Make\<close> on the
  configuration with the corresponding context; the results include what is printed.
\<close>

theorem shorthands_are_Make:
  "MakeExecutableSchema env cfg out = MakeExecutableSchemaWithContext env Background cfg out
   \<and> MakeExecutableSchema env cfg out = Make env cfg Background out
   \<and> MakeExecutableSchemaWithContext env ctx cfg out = Make env cfg ctx out"
  by (simp add: MakeExecutableSchema_def MakeExecutableSchemaWithContext_def)

end
